theory Spec2Isabelle
  imports Complex_Main "HOL-Library.Char_ord" "HOL-Library.List_Lexorder"
begin

section \<open>Offline queue and cache fallback of the Masjeed PWA\<close>

text \<open>
  The development embeds three source files: the IndexedDB wrapper
  (\<^verbatim>\<open>src/utils/indexedDB.ts\<close>, class \<^verbatim>\<open>IndexedDBManager\<close>), the offline queue manager
  (\<^verbatim>\<open>OfflineQueueManager\<close>) together with the part of the zustand store that drives it
  (\<^verbatim>\<open>setOnlineStatus\<close>, \<^verbatim>\<open>syncOfflineData\<close>), and the API part of the service worker
  (\<^verbatim>\<open>handleApiRequest\<close> and its fetch listener).

  Conventions. \<^verbatim>\<open>Date.now()\<close> is a parameter \<open>now\<close> of every operation that reads the
  clock (one reading per operation). Promises are run to completion in program order; a
  rejected promise is a value \<open>Inl e\<close>. Failures of the storage hardware itself (quota,
  a blocked open) are outside the model; the errors IndexedDB raises as a function of the
  database state (\<^verbatim>\<open>NotFoundError\<close> for a missing object store, \<^verbatim>\<open>ConstraintError\<close> for
  \<^verbatim>\<open>add\<close> on an existing key) are branches of the model.
\<close>

subsection \<open>Retry configuration and backoff\<close>

record RetryConfig =
  maxRetries :: nat
  baseDelay :: rat
  maxDelay :: rat
  backoffMultiplier :: rat

definition defaultRetryConfig :: RetryConfig where
  "defaultRetryConfig =
     \<lparr>maxRetries = 3, baseDelay = 1000, maxDelay = 30000, backoffMultiplier = 2\<rparr>"

text \<open>
  \<^verbatim>\<open>calculateRetryDelay(retryCount)\<close> reads \<^verbatim>\<open>this.defaultRetryConfig\<close>, here the first
  argument. \<^verbatim>\<open>Math.pow\<close> with an integer exponent is \<open>powi\<close>; numbers are rationals, which
  is exact for the default configuration as long as the power is finite (beyond that
  \<^verbatim>\<open>Math.min(Infinity, maxDelay)\<close> is \<^verbatim>\<open>maxDelay\<close> as well).
\<close>

definition calculateRetryDelay :: "RetryConfig \<Rightarrow> int \<Rightarrow> rat" where
  "calculateRetryDelay cfg retryCount =
     (let delay = baseDelay cfg * (backoffMultiplier cfg powi (retryCount - 1))
      in min delay (maxDelay cfg))"

subsection \<open>Stored records and the browser database\<close>

text \<open>
  \<^verbatim>\<open>IndexedDBManager\<close> is generic in the record type. The fields it reads or writes itself
  are the key path \<^verbatim>\<open>id\<close>, \<^verbatim>\<open>timestamp\<close> and \<^verbatim>\<open>expiresAt\<close>; every other field of a stored
  object is the record extension. An absent (\<^verbatim>\<open>undefined\<close>) \<^verbatim>\<open>expiresAt\<close> is \<open>None\<close>.
\<close>

record base =
  id' :: string
  timestamp :: int
  expiresAt :: "int option"

datatype idb_error = NotFoundError | ConstraintError

text \<open>
  An object store with key path \<^verbatim>\<open>id\<close> holds at most one record per key and iterates in
  key order.
\<close>

type_synonym 'a objstore = "'a base_scheme list"

definition os_get :: "'a objstore \<Rightarrow> string \<Rightarrow> 'a base_scheme option" where
  "os_get os k = List.find (\<lambda>r. id' r = k) os"

definition os_delete :: "'a objstore \<Rightarrow> string \<Rightarrow> 'a objstore" where
  "os_delete os k = filter (\<lambda>r. id' r \<noteq> k) os"

definition os_put :: "'a objstore \<Rightarrow> 'a base_scheme \<Rightarrow> 'a objstore" where
  "os_put os r = insort_key id' r (os_delete os (id' r))"

text \<open>
  The database \<^verbatim>\<open>masjeed-offline-db\<close> as the browser keeps it: its version (0 before the
  first open) and its object stores by name. \<open>db\<close> is the manager's handle \<^verbatim>\<open>this.db\<close>
  (\<open>False\<close> for \<^verbatim>\<open>null\<close>).
\<close>

record 'a IndexedDBManager =
  db :: bool
  version :: nat
  objectStores :: "string \<rightharpoonup> 'a objstore"

definition createObjectStore ::
  "string \<Rightarrow> (string \<rightharpoonup> 'a objstore) \<Rightarrow> (string \<rightharpoonup> 'a objstore)" where
  "createObjectStore name stores =
     (case stores name of Some os \<Rightarrow> stores | None \<Rightarrow> stores(name \<mapsto> []))"

text \<open>
  \<^verbatim>\<open>init\<close> opens version 1; \<^verbatim>\<open>onupgradeneeded\<close> runs only when the stored version is
  older, and creates six object stores.
\<close>

definition init :: "'a IndexedDBManager \<Rightarrow> 'a IndexedDBManager" where
  "init m =
     (if version m < 1
      then m\<lparr>db := True, version := 1,
             objectStores :=
               (createObjectStore ''offlineQueue'' \<circ> createObjectStore ''community'' \<circ>
                createObjectStore ''donations'' \<circ> createObjectStore ''announcements'' \<circ>
                createObjectStore ''events'' \<circ> createObjectStore ''prayerTimes'')
               (objectStores m)\<rparr>
      else m\<lparr>db := True\<rparr>)"

definition ensure_db :: "'a IndexedDBManager \<Rightarrow> 'a IndexedDBManager" where
  "ensure_db m = (if \<not> db m then init m else m)"

text \<open>\<^verbatim>\<open>this.db.transaction([storeName], mode).objectStore(storeName)\<close>\<close>

definition transaction :: "'a IndexedDBManager \<Rightarrow> string \<Rightarrow> idb_error + 'a objstore" where
  "transaction m storeName =
     (case objectStores m storeName of None \<Rightarrow> Inl NotFoundError | Some os \<Rightarrow> Inr os)"

definition write_store :: "'a IndexedDBManager \<Rightarrow> string \<Rightarrow> 'a objstore \<Rightarrow> 'a IndexedDBManager" where
  "write_store m storeName os = m\<lparr>objectStores := (objectStores m)(storeName \<mapsto> os)\<rparr>"

text \<open>
  \<^verbatim>\<open>store(storeName, data, ttlMinutes?)\<close>. A missing or zero \<^verbatim>\<open>ttlMinutes\<close> is falsy and
  leaves \<^verbatim>\<open>expiresAt\<close> undefined.
\<close>

definition store ::
  "string \<Rightarrow> 'a base_scheme \<Rightarrow> int option \<Rightarrow> int \<Rightarrow> 'a IndexedDBManager
     \<Rightarrow> (idb_error + unit) \<times> 'a IndexedDBManager" where
  "store storeName data ttlMinutes now m0 =
     (let m = ensure_db m0 in
      case transaction m storeName of
        Inl e \<Rightarrow> (Inl e, m)
      | Inr os \<Rightarrow>
          let dataWithExpiry = data\<lparr>
                timestamp := now,
                expiresAt := (case ttlMinutes of
                                None \<Rightarrow> None
                              | Some t \<Rightarrow> if t = 0 then None else Some (now + t * 60 * 1000))\<rparr>
          in (Inr (), write_store m storeName (os_put os dataWithExpiry)))"

definition delete ::
  "string \<Rightarrow> string \<Rightarrow> 'a IndexedDBManager \<Rightarrow> (idb_error + unit) \<times> 'a IndexedDBManager" where
  "delete storeName k m0 =
     (let m = ensure_db m0 in
      case transaction m storeName of
        Inl e \<Rightarrow> (Inl e, m)
      | Inr os \<Rightarrow> (Inr (), write_store m storeName (os_delete os k)))"

definition clear ::
  "string \<Rightarrow> 'a IndexedDBManager \<Rightarrow> (idb_error + unit) \<times> 'a IndexedDBManager" where
  "clear storeName m0 =
     (let m = ensure_db m0 in
      case transaction m storeName of
        Inl e \<Rightarrow> (Inl e, m)
      | Inr os \<Rightarrow> (Inr (), write_store m storeName []))"

text \<open>\<^verbatim>\<open>item.expiresAt && Date.now() > item.expiresAt\<close>: the number 0 is falsy.\<close>

definition expired :: "int \<Rightarrow> 'a base_scheme \<Rightarrow> bool" where
  "expired now r = (case expiresAt r of None \<Rightarrow> False | Some e \<Rightarrow> e \<noteq> 0 \<and> now > e)"

text \<open>
  \<^verbatim>\<open>get\<close> and \<^verbatim>\<open>getAll\<close> call \<^verbatim>\<open>this.delete\<close> for an expired record without awaiting it;
  the deletion is the next transaction on the database and is applied here at once. Its
  promise is dropped, so only its effect on the state is kept.
\<close>

definition get ::
  "string \<Rightarrow> string \<Rightarrow> int \<Rightarrow> 'a IndexedDBManager
     \<Rightarrow> (idb_error + 'a base_scheme option) \<times> 'a IndexedDBManager" where
  "get storeName k now m0 =
     (let m = ensure_db m0 in
      case transaction m storeName of
        Inl e \<Rightarrow> (Inl e, m)
      | Inr os \<Rightarrow>
          (case os_get os k of
             None \<Rightarrow> (Inr None, m)
           | Some result \<Rightarrow>
               if expired now result then (Inr None, snd (delete storeName k m))
               else (Inr (Some result), m)))"

definition getAll ::
  "string \<Rightarrow> int \<Rightarrow> 'a IndexedDBManager
     \<Rightarrow> (idb_error + 'a base_scheme list) \<times> 'a IndexedDBManager" where
  "getAll storeName now m0 =
     (let m = ensure_db m0 in
      case transaction m storeName of
        Inl e \<Rightarrow> (Inl e, m)
      | Inr results \<Rightarrow>
          (Inr (filter (\<lambda>item. \<not> expired now item) results),
           fold (\<lambda>item acc. snd (delete storeName (id' item) acc))
                (filter (expired now) results) m))"

text \<open>A database nobody has opened yet, and a manager that has not called \<^verbatim>\<open>init\<close>.\<close>

definition fresh :: "'a IndexedDBManager" where
  "fresh = \<lparr>db = False, version = 0, objectStores = Map.empty\<rparr>"

text \<open>
  The same database after the service worker has opened it first: its
  \<^verbatim>\<open>onupgradeneeded\<close> creates four object stores, and the version is 1 from then on.
\<close>

definition worker_opened :: "'a IndexedDBManager" where
  "worker_opened =
     \<lparr>db = False, version = 1,
      objectStores =
        (createObjectStore ''announcements'' \<circ> createObjectStore ''events'' \<circ>
         createObjectStore ''prayerTimes'' \<circ> createObjectStore ''offlineQueue'') Map.empty\<rparr>"



subsection \<open>The offline queue manager\<close>

datatype request_type = donations | registrations | announcements | general

text \<open>
  A headers object (\<^verbatim>\<open>Record<string, string>\<close>) is the list of its entries in insertion
  order, one entry per key. Assigning a key that is there replaces the value in place, a
  new key goes to the end; \<^verbatim>\<open>{ ...a, ...b }\<close> assigns the entries of \<open>b\<close> to a copy of \<open>a\<close>.
\<close>

type_synonym headers_object = "(string \<times> string) list"

fun obj_set :: "headers_object \<Rightarrow> string \<Rightarrow> string \<Rightarrow> headers_object" where
  "obj_set [] k v = [(k, v)]"
| "obj_set ((k', v') # h) k v = (if k' = k then (k, v) # h else (k', v') # obj_set h k v)"

definition spread :: "headers_object \<Rightarrow> headers_object \<Rightarrow> headers_object" where
  "spread a b = fold (\<lambda>(k, v) acc. obj_set acc k v) b a"

text \<open>
  What \<^verbatim>\<open>fetch\<close> makes of a headers object: a \<^verbatim>\<open>Headers\<close> list, in which names are compared
  without regard to (ASCII) case and the values under one name are joined by a comma and
  a space. \<open>header_get h n\<close> is \<^verbatim>\<open>new Headers(h).get(n)\<close>.
\<close>

definition lower_char :: "char \<Rightarrow> char" where
  "lower_char c =
     (case map_of (zip ''ABCDEFGHIJKLMNOPQRSTUVWXYZ'' ''abcdefghijklmnopqrstuvwxyz'') c of
        None \<Rightarrow> c
      | Some l \<Rightarrow> l)"

definition lower :: "string \<Rightarrow> string" where
  "lower name = map lower_char name"

fun join_values :: "string list \<Rightarrow> string" where
  "join_values [] = []"
| "join_values [v] = v"
| "join_values (v # w # vs) = v @ '', '' @ join_values (w # vs)"

definition header_get :: "headers_object \<Rightarrow> string \<Rightarrow> string option" where
  "header_get h name =
     (case map snd (filter (\<lambda>(k, v). lower k = lower name) h) of
        [] \<Rightarrow> None
      | v # vs \<Rightarrow> Some (join_values (v # vs)))"

text \<open>
  \<^verbatim>\<open>QueuedRequest\<close>. \<^verbatim>\<open>body\<close> is the serialised text (absent is \<open>None\<close>), \<^verbatim>\<open>maxRetries\<close>
  optional as in the interface.
\<close>

record QueuedRequest = base +
  url :: string
  method' :: string
  body :: "string option"
  headers :: headers_object
  retryCount :: nat
  maxRetries :: "nat option"
  type' :: request_type

type_synonym queue_db = "unit QueuedRequest_ext IndexedDBManager"

text \<open>\<^verbatim>\<open>Partial<RetryConfig>\<close>, and the spread \<^verbatim>\<open>{ ...this.defaultRetryConfig, ...retryConfig }\<close>.\<close>

record PartialRetryConfig =
  p_maxRetries :: "nat option"
  p_baseDelay :: "rat option"
  p_maxDelay :: "rat option"
  p_backoffMultiplier :: "rat option"

definition merge_config :: "RetryConfig \<Rightarrow> PartialRetryConfig option \<Rightarrow> RetryConfig" where
  "merge_config d retryConfig =
     (case retryConfig of
        None \<Rightarrow> d
      | Some c \<Rightarrow>
          \<lparr>RetryConfig.maxRetries = (case p_maxRetries c of None \<Rightarrow> RetryConfig.maxRetries d | Some v \<Rightarrow> v),
           baseDelay = (case p_baseDelay c of None \<Rightarrow> baseDelay d | Some v \<Rightarrow> v),
           maxDelay = (case p_maxDelay c of None \<Rightarrow> maxDelay d | Some v \<Rightarrow> v),
           backoffMultiplier =
             (case p_backoffMultiplier c of None \<Rightarrow> backoffMultiplier d | Some v \<Rightarrow> v)\<rparr>)"

text \<open>What \<^verbatim>\<open>fetch(url, requestInit)\<close> is called with, and what it gives back.\<close>

record fetch_call =
  fc_url :: string
  fc_method :: string
  fc_headers :: headers_object
  fc_body :: "string option"

record response =
  status :: nat
  statusText :: string

definition ok :: "'a response_scheme \<Rightarrow> bool" where
  "ok r = (200 \<le> status r \<and> status r \<le> 299)"

datatype js_error =
  NetworkFailure string | Error string | TypeError string | DOMException idb_error

type_synonym network = "fetch_call \<Rightarrow> js_error + response"

datatype queue_event =
  offlineQueueSuccess string request_type string string
| offlineQueueFailure string request_type string string nat

text \<open>
  The manager's fields \<^verbatim>\<open>isOnline\<close> and \<^verbatim>\<open>retryTimeouts\<close> (item id to timer handle), the
  database behind \<^verbatim>\<open>indexedDBManager\<close>, and its surroundings: the browser's pending timers
  (handle, item id, delay), the next timer handle, the custom events dispatched on
  \<^verbatim>\<open>window\<close>, the calls made to \<^verbatim>\<open>fetch\<close>, and the number of drains started (calls of
  \<^verbatim>\<open>processQueue\<close> that went past the offline guard). Timer handles are truthy.
\<close>

record OfflineQueueManager =
  isOnline :: bool
  retryTimeouts :: "string \<rightharpoonup> nat"
  idb :: queue_db
  timers :: "(nat \<times> string \<times> rat) list"
  nextTimer :: nat
  dispatched :: "queue_event list"
  fetched :: "fetch_call list"
  drains :: nat

text \<open>
  The field initialisers of the class. (The constructor also sets a one-second timer for a
  first drain when the browser is online; that timer is not one of the retry timers kept
  in \<open>timers\<close>.)
\<close>

definition new_OfflineQueueManager :: "bool \<Rightarrow> queue_db \<Rightarrow> OfflineQueueManager" where
  "new_OfflineQueueManager onLine d =
     \<lparr>isOnline = onLine, retryTimeouts = Map.empty, idb = d, timers = [], nextTimer = 1,
      dispatched = [], fetched = [], drains = 0\<rparr>"

definition clearTimeout :: "nat \<Rightarrow> OfflineQueueManager \<Rightarrow> OfflineQueueManager" where
  "clearTimeout h s = s\<lparr>timers := filter (\<lambda>t. fst t \<noteq> h) (timers s)\<rparr>"

definition scheduleRetry :: "string \<Rightarrow> rat \<Rightarrow> OfflineQueueManager \<Rightarrow> OfflineQueueManager" where
  "scheduleRetry itemId delay s0 =
     (let s = (case retryTimeouts s0 itemId of None \<Rightarrow> s0 | Some h \<Rightarrow> clearTimeout h s0);
          timeout = nextTimer s
      in s\<lparr>timers := timers s @ [(timeout, itemId, delay)],
            nextTimer := timeout + 1,
            retryTimeouts := (retryTimeouts s)(itemId \<mapsto> timeout)\<rparr>)"

definition removeFromQueue ::
  "string \<Rightarrow> OfflineQueueManager \<Rightarrow> (js_error + unit) \<times> OfflineQueueManager" where
  "removeFromQueue itemId s0 =
     (case delete ''offlineQueue'' itemId (idb s0) of
        (Inl e, d) \<Rightarrow> (Inl (DOMException e), s0\<lparr>idb := d\<rparr>)
      | (Inr _, d) \<Rightarrow>
          let s = s0\<lparr>idb := d\<rparr> in
          (Inr (),
           case retryTimeouts s itemId of
             None \<Rightarrow> s
           | Some h \<Rightarrow> (clearTimeout h s)\<lparr>retryTimeouts := (retryTimeouts s)(itemId := None)\<rparr>))"

definition notifySuccess :: "QueuedRequest \<Rightarrow> OfflineQueueManager \<Rightarrow> OfflineQueueManager" where
  "notifySuccess item s =
     s\<lparr>dispatched := dispatched s @
          [offlineQueueSuccess (id' item) (type' item) (url item) (method' item)]\<rparr>"

definition notifyFailure :: "QueuedRequest \<Rightarrow> OfflineQueueManager \<Rightarrow> OfflineQueueManager" where
  "notifyFailure item s =
     s\<lparr>dispatched := dispatched s @
          [offlineQueueFailure (id' item) (type' item) (url item) (method' item)
             (retryCount item)]\<rparr>"

text \<open>\<^verbatim>\<open>item.maxRetries || this.defaultRetryConfig.maxRetries\<close>: undefined and 0 are falsy.\<close>

definition effectiveMaxRetries :: "RetryConfig \<Rightarrow> QueuedRequest \<Rightarrow> nat" where
  "effectiveMaxRetries cfg item =
     (case QueuedRequest.maxRetries item of
        None \<Rightarrow> RetryConfig.maxRetries cfg
      | Some n \<Rightarrow> if n = 0 then RetryConfig.maxRetries cfg else n)"

definition handleRetry ::
  "QueuedRequest \<Rightarrow> int \<Rightarrow> OfflineQueueManager \<Rightarrow> (js_error + unit) \<times> OfflineQueueManager" where
  "handleRetry item now s =
     (let maxRetries = effectiveMaxRetries defaultRetryConfig item in
      if retryCount item \<ge> maxRetries
      then (case removeFromQueue (id' item) s of
              (Inl e, s1) \<Rightarrow> (Inl e, s1)
            | (Inr _, s1) \<Rightarrow> (Inr (), notifyFailure item s1))
      else
        let item1 = item\<lparr>retryCount := retryCount item + 1\<rparr> in
        (case store ''offlineQueue'' item1 None now (idb s) of
           (Inl e, d) \<Rightarrow> (Inl (DOMException e), s\<lparr>idb := d\<rparr>)
         | (Inr _, d) \<Rightarrow>
             let delay = calculateRetryDelay defaultRetryConfig (int (retryCount item1))
             in (Inr (), scheduleRetry (id' item1) delay (s\<lparr>idb := d\<rparr>))))"

text \<open>
  \<^verbatim>\<open>executeRequest\<close>: the \<^verbatim>\<open>RequestInit\<close> built from the item. The headers are
  \<^verbatim>\<open>{ 'Content-Type': 'application/json', ...item.headers }\<close>; an empty body text is falsy.
\<close>

definition requestInit :: "QueuedRequest \<Rightarrow> fetch_call" where
  "requestInit item =
     \<lparr>fc_url = url item,
      fc_method = method' item,
      fc_headers = spread [(''Content-Type'', ''application/json'')] (headers item),
      fc_body = (case body item of
                   None \<Rightarrow> None
                 | Some b \<Rightarrow> if b \<noteq> [] \<and> method' item \<noteq> ''GET'' then Some b else None)\<rparr>"

definition executeRequest ::
  "network \<Rightarrow> QueuedRequest \<Rightarrow> OfflineQueueManager
     \<Rightarrow> (js_error + response) \<times> OfflineQueueManager" where
  "executeRequest net item s =
     (net (requestInit item), s\<lparr>fetched := fetched s @ [requestInit item]\<rparr>)"

definition processQueueItem ::
  "network \<Rightarrow> QueuedRequest \<Rightarrow> int \<Rightarrow> OfflineQueueManager
     \<Rightarrow> (js_error + unit) \<times> OfflineQueueManager" where
  "processQueueItem net item now s0 =
     (case executeRequest net item s0 of
        (Inl e, s) \<Rightarrow> handleRetry item now s
      | (Inr response, s) \<Rightarrow>
          if ok response
          then (case removeFromQueue (id' item) s of
                  (Inl e, s1) \<Rightarrow> handleRetry item now s1
                | (Inr _, s1) \<Rightarrow> (Inr (), notifySuccess item s1))
          else handleRetry item now s)"

text \<open>The loop of \<^verbatim>\<open>processQueue\<close>; an error leaves the loop (it is caught and logged).\<close>

fun process_items ::
  "network \<Rightarrow> int \<Rightarrow> QueuedRequest list \<Rightarrow> OfflineQueueManager \<Rightarrow> OfflineQueueManager" where
  "process_items net now [] s = s"
| "process_items net now (item # queueItems) s =
     (case processQueueItem net item now s of
        (Inl e, s1) \<Rightarrow> s1
      | (Inr _, s1) \<Rightarrow> process_items net now queueItems s1)"

text \<open>
  \<^verbatim>\<open>processQueue\<close> in two parts: up to the answer of \<^verbatim>\<open>getAll\<close> (the offline guard and the
  reading of the queue; \<open>None\<close> when there is nothing to run), and the loop over the items
  read.
\<close>

definition processQueue_read ::
  "int \<Rightarrow> OfflineQueueManager \<Rightarrow> QueuedRequest list option \<times> OfflineQueueManager" where
  "processQueue_read now s =
     (if \<not> isOnline s then (None, s)
      else
        (case getAll ''offlineQueue'' now (idb s) of
           (Inl e, d) \<Rightarrow> (None, s\<lparr>idb := d, drains := drains s + 1\<rparr>)
         | (Inr queueItems, d) \<Rightarrow> (Some queueItems, s\<lparr>idb := d, drains := drains s + 1\<rparr>)))"

definition processQueue_loop ::
  "network \<Rightarrow> int \<Rightarrow> QueuedRequest list option \<Rightarrow> OfflineQueueManager
     \<Rightarrow> OfflineQueueManager" where
  "processQueue_loop net now read s =
     (case read of None \<Rightarrow> s | Some queueItems \<Rightarrow> process_items net now queueItems s)"

definition processQueue :: "network \<Rightarrow> int \<Rightarrow> OfflineQueueManager \<Rightarrow> OfflineQueueManager" where
  "processQueue net now s =
     (case processQueue_read now s of (read, s1) \<Rightarrow> processQueue_loop net now read s1)"

text \<open>
  \<^verbatim>\<open>addToQueue\<close>. The id is made from the clock and \<^verbatim>\<open>Math.random()\<close> and is a parameter;
  \<open>body\<close> is \<^verbatim>\<open>JSON.stringify(body)\<close> for a truthy body and \<open>None\<close> otherwise.
\<close>

definition addToQueue ::
  "string \<Rightarrow> string \<Rightarrow> string option \<Rightarrow> headers_object option \<Rightarrow> request_type
     \<Rightarrow> PartialRetryConfig option \<Rightarrow> string \<Rightarrow> int \<Rightarrow> OfflineQueueManager
     \<Rightarrow> (js_error + string) \<times> OfflineQueueManager" where
  "addToQueue url0 method0 body0 headers0 type0 retryConfig newId now s =
     (let config = merge_config defaultRetryConfig retryConfig;
          queueItem = \<lparr>id' = newId, timestamp = now, expiresAt = None,
                       url = url0, method' = method0, body = body0,
                       headers = (case headers0 of None \<Rightarrow> [] | Some h \<Rightarrow> h),
                       retryCount = 0,
                       maxRetries = Some (RetryConfig.maxRetries config),
                       type' = type0\<rparr>
      in case store ''offlineQueue'' queueItem None now (idb s) of
           (Inl e, d) \<Rightarrow> (Inl (DOMException e), s\<lparr>idb := d\<rparr>)
         | (Inr _, d) \<Rightarrow>
             (Inr (id' queueItem),
              if isOnline s then scheduleRetry (id' queueItem) 0 (s\<lparr>idb := d\<rparr>)
              else s\<lparr>idb := d\<rparr>))"

text \<open>
  The callback that \<^verbatim>\<open>scheduleRetry\<close> hands to \<^verbatim>\<open>setTimeout\<close>, run when the timer with
  handle \<open>h\<close> fires.
\<close>

definition fireTimer :: "network \<Rightarrow> int \<Rightarrow> nat \<Rightarrow> OfflineQueueManager \<Rightarrow> OfflineQueueManager" where
  "fireTimer net now h s0 =
     (case List.find (\<lambda>t. fst t = h) (timers s0) of
        None \<Rightarrow> s0
      | Some (_, itemId, _) \<Rightarrow>
          let s = clearTimeout h s0;
              s2 = (case get ''offlineQueue'' itemId now (idb s) of
                      (Inl e, d) \<Rightarrow> s\<lparr>idb := d\<rparr>
                    | (Inr None, d) \<Rightarrow> s\<lparr>idb := d\<rparr>
                    | (Inr (Some item), d) \<Rightarrow> snd (processQueueItem net item now (s\<lparr>idb := d\<rparr>)))
          in s2\<lparr>retryTimeouts := (retryTimeouts s2)(itemId := None)\<rparr>)"

definition getQueueStatus ::
  "int \<Rightarrow> OfflineQueueManager
     \<Rightarrow> (js_error + nat \<times> (request_type \<Rightarrow> nat) \<times> QueuedRequest list) \<times> OfflineQueueManager" where
  "getQueueStatus now s =
     (case getAll ''offlineQueue'' now (idb s) of
        (Inl e, d) \<Rightarrow> (Inl (DOMException e), s\<lparr>idb := d\<rparr>)
      | (Inr items, d) \<Rightarrow>
          (Inr (length items, (\<lambda>t. length (filter (\<lambda>item. type' item = t) items)), items),
           s\<lparr>idb := d\<rparr>))"

text \<open>
  \<^verbatim>\<open>clearQueue\<close> clears every timer in \<^verbatim>\<open>retryTimeouts\<close>. An entry of that map is the
  handle of a timer set for its item, so these are the pending timers the map points to.
\<close>

definition clearQueue :: "OfflineQueueManager \<Rightarrow> (js_error + unit) \<times> OfflineQueueManager" where
  "clearQueue s0 =
     (let s = s0\<lparr>timers := filter (\<lambda>(h, itemId, d). retryTimeouts s0 itemId \<noteq> Some h)
                                 (timers s0),
                 retryTimeouts := Map.empty\<rparr>
      in case clear ''offlineQueue'' (idb s) of
           (Inl e, d) \<Rightarrow> (Inl (DOMException e), s\<lparr>idb := d\<rparr>)
         | (Inr _, d) \<Rightarrow> (Inr (), s\<lparr>idb := d\<rparr>))"

definition removeQueueItem ::
  "string \<Rightarrow> OfflineQueueManager \<Rightarrow> (js_error + unit) \<times> OfflineQueueManager" where
  "removeQueueItem itemId s = removeFromQueue itemId s"

definition retryItem ::
  "network \<Rightarrow> string \<Rightarrow> int \<Rightarrow> OfflineQueueManager
     \<Rightarrow> (js_error + unit) \<times> OfflineQueueManager" where
  "retryItem net itemId now s =
     (case get ''offlineQueue'' itemId now (idb s) of
        (Inl e, d) \<Rightarrow> (Inl (DOMException e), s\<lparr>idb := d\<rparr>)
      | (Inr None, d) \<Rightarrow> (Inr (), s\<lparr>idb := d\<rparr>)
      | (Inr (Some item), d) \<Rightarrow>
          if isOnline s then processQueueItem net item now (s\<lparr>idb := d\<rparr>)
          else (Inr (), s\<lparr>idb := d\<rparr>))"

text \<open>The two listeners of \<^verbatim>\<open>setupNetworkListeners\<close>.\<close>

definition manager_online :: "network \<Rightarrow> int \<Rightarrow> OfflineQueueManager \<Rightarrow> OfflineQueueManager" where
  "manager_online net now s = processQueue net now (s\<lparr>isOnline := True\<rparr>)"

definition manager_offline :: "OfflineQueueManager \<Rightarrow> OfflineQueueManager" where
  "manager_offline s = s\<lparr>isOnline := False\<rparr>"

text \<open>
  The public surface of the manager as one function: its methods, the two network
  listeners and the firing of a retry timer.
\<close>

datatype manager_call =
  AddToQueue string string "string option" "headers_object option" request_type
    "PartialRetryConfig option" string
| ProcessQueue
| FireTimer nat
| GetQueueStatus
| ClearQueue
| RemoveQueueItem string
| RetryItem string
| Online
| Offline

primrec perform ::
  "network \<Rightarrow> int \<Rightarrow> manager_call \<Rightarrow> OfflineQueueManager \<Rightarrow> OfflineQueueManager" where
  "perform net now (AddToQueue u m b h t rc newId) s = snd (addToQueue u m b h t rc newId now s)"
| "perform net now ProcessQueue s = processQueue net now s"
| "perform net now (FireTimer h) s = fireTimer net now h s"
| "perform net now GetQueueStatus s = snd (getQueueStatus now s)"
| "perform net now ClearQueue s = snd (clearQueue s)"
| "perform net now (RemoveQueueItem k) s = snd (removeQueueItem k s)"
| "perform net now (RetryItem k) s = snd (retryItem net k now s)"
| "perform net now Online s = manager_online net now s"
| "perform net now Offline s = manager_offline s"

text \<open>
  Observations used to state properties: the content of the \<^verbatim>\<open>offlineQueue\<close> object store
  as the next operation of the manager finds it, whether an object store has a record
  under a key, the guard of \<^verbatim>\<open>handleRetry\<close>, and the \<^verbatim>\<open>detail.id\<close> of an event.
\<close>

definition queue_of :: "OfflineQueueManager \<Rightarrow> QueuedRequest list option" where
  "queue_of s = objectStores (ensure_db (idb s)) ''offlineQueue''"

definition has_key :: "'a objstore \<Rightarrow> string \<Rightarrow> bool" where
  "has_key os k = (os_get os k \<noteq> None)"

definition no_ttl :: "'a objstore \<Rightarrow> bool" where
  "no_ttl os = (\<forall>x\<in>set os. expiresAt x = None)"

definition exhausted :: "QueuedRequest \<Rightarrow> bool" where
  "exhausted item = (retryCount item \<ge> effectiveMaxRetries defaultRetryConfig item)"

primrec event_id :: "queue_event \<Rightarrow> string" where
  "event_id (offlineQueueSuccess i t u m) = i"
| "event_id (offlineQueueFailure i t u m n) = i"

text \<open>
  The two ways in which an attempt takes an item out of the queue, told from what the
  attempt leaves behind: the request built from the item is among the calls to \<^verbatim>\<open>fetch\<close>,
  and either the network answers it with a 2xx response and the success event of the
  item is among the events, or it does not, the retries of the item are exhausted, and the
  failure event of the item is among the events.
\<close>

definition replay_succeeded :: "network \<Rightarrow> QueuedRequest \<Rightarrow> bool" where
  "replay_succeeded net item =
     (case net (requestInit item) of Inr response \<Rightarrow> ok response | Inl e \<Rightarrow> False)"

definition left_by_attempt ::
  "network \<Rightarrow> QueuedRequest \<Rightarrow> fetch_call list \<Rightarrow> queue_event list \<Rightarrow> bool" where
  "left_by_attempt net item calls evs =
     (requestInit item \<in> set calls \<and>
      (if replay_succeeded net item
       then offlineQueueSuccess (id' item) (type' item) (url item) (method' item) \<in> set evs
       else exhausted item \<and>
            offlineQueueFailure (id' item) (type' item) (url item) (method' item)
              (retryCount item) \<in> set evs))"

text \<open>
  Every key that a step takes out of the queue \<open>q\<close> (leaving \<open>q1\<close>) belongs to one of the
  items attempted, and that attempt ended in one of the two ways.
\<close>

definition removed_by_attempts ::
  "network \<Rightarrow> QueuedRequest list \<Rightarrow> QueuedRequest list \<Rightarrow> QueuedRequest list
     \<Rightarrow> fetch_call list \<Rightarrow> queue_event list \<Rightarrow> bool" where
  "removed_by_attempts net items q q1 calls evs =
     (\<forall>k. has_key q k \<and> \<not> has_key q1 k \<longrightarrow>
          (\<exists>item\<in>set items. id' item = k \<and> left_by_attempt net item calls evs))"

subsection \<open>The store's offline actions\<close>

text \<open>
  The \<^verbatim>\<open>offline\<close> slice of the zustand store and the singleton queue manager its actions
  call through \<^verbatim>\<open>offlineQueue\<close>.
\<close>

record OfflineState =
  isOnline :: bool
  queuedRequests :: nat
  lastSyncTime :: "int option"
  syncInProgress :: bool

record AuthStore =
  offline :: OfflineState
  manager :: OfflineQueueManager

text \<open>The initial state of the store, \<^verbatim>\<open>navigator.onLine\<close> being the first argument.\<close>

definition initial_store :: "bool \<Rightarrow> OfflineQueueManager \<Rightarrow> AuthStore" where
  "initial_store onLine m =
     \<lparr>offline = \<lparr>isOnline = onLine, queuedRequests = 0, lastSyncTime = None,
                  syncInProgress = False\<rparr>,
      manager = m\<rparr>"

definition updateQueuedRequests :: "int \<Rightarrow> AuthStore \<Rightarrow> AuthStore" where
  "updateQueuedRequests now st =
     (case getQueueStatus now (manager st) of
        (Inl e, m) \<Rightarrow> st\<lparr>manager := m\<rparr>
      | (Inr (status_total, _), m) \<Rightarrow>
          st\<lparr>manager := m, offline := (offline st)\<lparr>queuedRequests := status_total\<rparr>\<rparr>)"

text \<open>
  \<^verbatim>\<open>syncOfflineData\<close> in two parts: up to its first \<^verbatim>\<open>await\<close> (the guard and the raising of
  \<^verbatim>\<open>syncInProgress\<close>; \<open>None\<close> is the early return), and the rest. Neither
  \<^verbatim>\<open>processQueue\<close> nor \<^verbatim>\<open>updateQueuedRequests\<close> rejects, so the \<^verbatim>\<open>catch\<close> block is never
  entered.
\<close>

definition syncOfflineData_begin :: "AuthStore \<Rightarrow> AuthStore option" where
  "syncOfflineData_begin st =
     (if \<not> isOnline (offline st) \<or> syncInProgress (offline st) then None
      else Some (st\<lparr>offline := (offline st)\<lparr>syncInProgress := True\<rparr>\<rparr>))"

definition syncOfflineData_rest :: "network \<Rightarrow> int \<Rightarrow> AuthStore \<Rightarrow> AuthStore" where
  "syncOfflineData_rest net now st =
     (let st1 = st\<lparr>manager := processQueue net now (manager st)\<rparr>;
          st2 = updateQueuedRequests now st1
      in st2\<lparr>offline := (offline st2)\<lparr>syncInProgress := False, lastSyncTime := Some now\<rparr>\<rparr>)"

definition syncOfflineData :: "network \<Rightarrow> int \<Rightarrow> AuthStore \<Rightarrow> AuthStore" where
  "syncOfflineData net now st =
     (case syncOfflineData_begin st of
        None \<Rightarrow> st
      | Some st1 \<Rightarrow> syncOfflineData_rest net now st1)"

definition setOnlineStatus :: "network \<Rightarrow> int \<Rightarrow> bool \<Rightarrow> AuthStore \<Rightarrow> AuthStore" where
  "setOnlineStatus net now online st =
     (let st1 = st\<lparr>offline := (offline st)\<lparr>isOnline := online\<rparr>\<rparr>
      in if online then syncOfflineData net now st1 else st1)"

text \<open>\<^verbatim>\<open>handleOnline\<close> of \<^verbatim>\<open>App\<close>.\<close>

definition handleOnline :: "network \<Rightarrow> int \<Rightarrow> AuthStore \<Rightarrow> AuthStore" where
  "handleOnline net now st = updateQueuedRequests now (setOnlineStatus net now True st)"

text \<open>
  One \<^verbatim>\<open>online\<close> event on \<^verbatim>\<open>window\<close>. The manager's listener is registered when its module
  is loaded, \<^verbatim>\<open>App\<close>'s in an effect after the first render, and listeners run in that
  order, each up to its first \<^verbatim>\<open>await\<close>. So the three \<^verbatim>\<open>getAll\<close> requests (the manager's
  drain, the drain started by \<^verbatim>\<open>syncOfflineData\<close>, and \<^verbatim>\<open>updateQueuedRequests\<close> of
  \<^verbatim>\<open>handleOnline\<close>) are issued before any item is attempted, and both drains run over what
  they have read. Of the schedules the event loop allows for the two loops, the one taken
  here runs the manager's loop first and the other one after it.
\<close>

definition window_online :: "network \<Rightarrow> int \<Rightarrow> AuthStore \<Rightarrow> AuthStore" where
  "window_online net now st =
     (case processQueue_read now ((manager st)\<lparr>OfflineQueueManager.isOnline := True\<rparr>) of
        (read1, m1) \<Rightarrow>
          let st1 = st\<lparr>manager := m1, offline := (offline st)\<lparr>isOnline := True\<rparr>\<rparr> in
          (case syncOfflineData_begin st1 of
             None \<Rightarrow>
               let st2 = updateQueuedRequests now st1
               in st2\<lparr>manager := processQueue_loop net now read1 (manager st2)\<rparr>
           | Some st2 \<Rightarrow>
               (case processQueue_read now (manager st2) of
                  (read2, m2) \<Rightarrow>
                    let st3 = updateQueuedRequests now (st2\<lparr>manager := m2\<rparr>);
                        m3 = processQueue_loop net now read1 (manager st3);
                        m4 = processQueue_loop net now read2 m3;
                        st4 = updateQueuedRequests now (st3\<lparr>manager := m4\<rparr>)
                    in st4\<lparr>offline := (offline st4)\<lparr>syncInProgress := False,
                                                     lastSyncTime := Some now\<rparr>\<rparr>)))"

subsection \<open>The service worker's API requests\<close>

datatype json =
  JNull | JBool bool | JNum int | JStr string | JArr "json list" | JObj "(string \<times> json) list"

datatype body = Json json | Text string

text \<open>
  A request as the worker receives it: \<open>req_body\<close> is the text of its body (\<open>None\<close> for a
  request without one), \<open>req_headers\<close> the entries of \<^verbatim>\<open>request.headers\<close>, whose names the
  iterator yields in lower case.
\<close>

record Request =
  req_url :: string
  req_pathname :: string
  req_method :: string
  req_body :: "string option"
  req_headers :: headers_object

record Response = response +
  resp_headers :: "string \<rightharpoonup> string"
  resp_body :: body

record StoredData = base +
  data :: json

type_synonym sw_network = "Request \<Rightarrow> js_error + Response"

text \<open>
  What the worker sees of the browser: the Cache API (entries of any cache by URL; only
  \<^verbatim>\<open>GET\<close> requests are stored and matched), and the database it opens itself, with the
  queue's object store and the snapshot stores kept apart because their records differ.
\<close>

record ServiceWorker =
  caches :: "string \<rightharpoonup> Response"
  sw_version :: nat
  sw_queue :: "QueuedRequest list option"
  sw_data :: "string \<rightharpoonup> StoredData list"

definition startsWith :: "string \<Rightarrow> string \<Rightarrow> bool" where
  "startsWith s p = (take (length p) s = p)"

fun includes_str :: "string \<Rightarrow> string \<Rightarrow> bool" where
  "includes_str [] sub = (sub = [])"
| "includes_str (c # s) sub = (startsWith (c # s) sub \<or> includes_str s sub)"

definition getRequestType :: "string \<Rightarrow> request_type" where
  "getRequestType pathname =
     (if includes_str pathname ''/donations'' then donations
      else if includes_str pathname ''/events'' \<and> includes_str pathname ''/register'' then registrations
      else if includes_str pathname ''/announcements'' then announcements
      else general)"

definition openIndexedDB :: "ServiceWorker \<Rightarrow> ServiceWorker" where
  "openIndexedDB s =
     (if sw_version s < 1
      then s\<lparr>sw_version := 1,
             sw_queue := (case sw_queue s of None \<Rightarrow> Some [] | Some q \<Rightarrow> Some q),
             sw_data :=
               (createObjectStore ''announcements'' \<circ> createObjectStore ''events'' \<circ>
                createObjectStore ''prayerTimes'') (sw_data s)\<rparr>
      else s)"

text \<open>
  The worker's \<^verbatim>\<open>addToOfflineQueue\<close>. An exception before the promise is built is caught
  and logged (result \<^verbatim>\<open>undefined\<close>, here \<open>None\<close>); the promise for \<^verbatim>\<open>store.add\<close> is
  returned without \<^verbatim>\<open>await\<close>, so its rejection reaches the caller.
\<close>

definition addToOfflineQueue ::
  "request_type \<Rightarrow> string \<Rightarrow> string \<Rightarrow> string option \<Rightarrow> headers_object
     \<Rightarrow> string \<Rightarrow> int \<Rightarrow> ServiceWorker \<Rightarrow> (js_error + string option) \<times> ServiceWorker" where
  "addToOfflineQueue type0 url0 method0 body0 headers0 newId now s0 =
     (let s = openIndexedDB s0 in
      case sw_queue s of
        None \<Rightarrow> (Inr None, s)
      | Some q \<Rightarrow>
          let queueItem = \<lparr>id' = newId, timestamp = now, expiresAt = None,
                           url = url0, method' = method0, body = body0, headers = headers0,
                           retryCount = 0, maxRetries = None, type' = type0\<rparr>
          in if os_get q newId \<noteq> None then (Inl (DOMException ConstraintError), s)
             else (Inr (Some newId), s\<lparr>sw_queue := Some (os_put q queueItem)\<rparr>))"

definition storeNameFor :: "string \<Rightarrow> string" where
  "storeNameFor pathname =
     (if includes_str pathname ''/prayers'' then ''prayerTimes''
      else if includes_str pathname ''/events'' then ''events''
      else if includes_str pathname ''/announcements'' then ''announcements''
      else ''general'')"

definition storeApiDataInIndexedDB :: "string \<Rightarrow> json \<Rightarrow> int \<Rightarrow> ServiceWorker \<Rightarrow> ServiceWorker" where
  "storeApiDataInIndexedDB pathname d now s0 =
     (let s = openIndexedDB s0; storeName = storeNameFor pathname in
      case sw_data s storeName of
        None \<Rightarrow> s
      | Some os \<Rightarrow>
          let storeData = \<lparr>id' = ''current'', timestamp = now,
                           expiresAt = Some (now + 60 * 60 * 1000), data = d\<rparr>
          in s\<lparr>sw_data := (sw_data s)(storeName \<mapsto> os_put os storeData)\<rparr>)"

definition getApiDataFromIndexedDB ::
  "string \<Rightarrow> int \<Rightarrow> ServiceWorker \<Rightarrow> StoredData option \<times> ServiceWorker" where
  "getApiDataFromIndexedDB pathname now s0 =
     (let s = openIndexedDB s0 in
      case sw_data s (storeNameFor pathname) of
        None \<Rightarrow> (None, s)
      | Some os \<Rightarrow>
          (case os_get os ''current'' of
             None \<Rightarrow> (None, s)
           | Some result \<Rightarrow> if expired now result then (None, s) else (Some result, s)))"

definition json_response :: "nat \<Rightarrow> (string \<times> json) list \<Rightarrow> Response" where
  "json_response st members =
     \<lparr>status = st, statusText = [],
      resp_headers = [''Content-Type'' \<mapsto> ''application/json''],
      resp_body = Json (JObj members)\<rparr>"

definition getOfflineResponse :: "string \<Rightarrow> Response" where
  "getOfflineResponse pathname =
     (if startsWith pathname ''/api/auth/''
      then json_response 503
             [(''success'', JBool False), (''error'', JStr ''Authentication service unavailable'')]
      else if includes_str pathname ''/prayers''
      then json_response 503
             [(''success'', JBool False), (''error'', JStr ''Prayer times not available offline''),
              (''offline'', JBool True), (''data'', JNull)]
      else if includes_str pathname ''/events''
      then json_response 503
             [(''success'', JBool False), (''error'', JStr ''Events not available offline''),
              (''offline'', JBool True), (''data'', JArr [])]
      else if includes_str pathname ''/announcements''
      then json_response 503
             [(''success'', JBool False), (''error'', JStr ''Announcements not available offline''),
              (''offline'', JBool True), (''data'', JArr [])]
      else json_response 503
             [(''success'', JBool False), (''error'', JStr ''API not available offline''),
              (''offline'', JBool True)])"

definition queuedResponse :: Response where
  "queuedResponse =
     json_response 202
       [(''success'', JBool False), (''error'', JStr ''Request queued for when back online''),
        (''offline'', JBool True), (''queued'', JBool True)]"

definition authUnavailable :: Response where
  "authUnavailable =
     json_response 503
       [(''success'', JBool False), (''error'', JStr ''Authentication service unavailable''),
        (''offline'', JBool False)]"

definition isWriteOperation :: "Request \<Rightarrow> bool" where
  "isWriteOperation request = (req_method request \<in> set [''POST'', ''PUT'', ''PATCH'', ''DELETE''])"

definition isAuthEndpoint :: "Request \<Rightarrow> bool" where
  "isAuthEndpoint request = startsWith (req_pathname request) ''/api/auth/''"

text \<open>
  The fallbacks of a failed read: any cache, then the snapshot in IndexedDB, then the
  offline response. The headers of a response that comes out of the Cache API are
  immutable, also on its clone, so \<^verbatim>\<open>response.headers.set('X-From-Cache', 'true')\<close> throws a
  \<^verbatim>\<open>TypeError\<close>, which leaves the \<^verbatim>\<open>catch\<close> block.
\<close>

definition read_fallback ::
  "Request \<Rightarrow> int \<Rightarrow> ServiceWorker \<Rightarrow> (js_error + Response) \<times> ServiceWorker" where
  "read_fallback request now s =
     (case (if req_method request = ''GET'' then caches s (req_url request) else None) of
        Some cachedResponse \<Rightarrow> (Inl (TypeError ''Headers are immutable''), s)
      | None \<Rightarrow>
          (case getApiDataFromIndexedDB (req_pathname request) now s of
             (Some indexedDBData, s1) \<Rightarrow>
               (Inr \<lparr>status = 200, statusText = [],
                     resp_headers = [''Content-Type'' \<mapsto> ''application/json'',
                                     ''X-From-IndexedDB'' \<mapsto> ''true''],
                     resp_body = Json (data indexedDBData)\<rparr>, s1)
           | (None, s1) \<Rightarrow> (Inr (getOfflineResponse (req_pathname request)), s1)))"

text \<open>
  The \<^verbatim>\<open>catch\<close> block of a failed write: the request is put into the queue and a 202
  response is made up. The body is not read for \<^verbatim>\<open>DELETE\<close>. For the other methods the
  block calls \<^verbatim>\<open>request.clone().text()\<close> after \<^verbatim>\<open>fetch(request)\<close> has taken the body of the
  request: \<^verbatim>\<open>clone\<close> throws a \<^verbatim>\<open>TypeError\<close> for a request whose body has been used, and
  only a request without a body gets through, with the empty text.
\<close>

definition enqueue_write ::
  "Request \<Rightarrow> string option \<Rightarrow> string \<Rightarrow> int \<Rightarrow> ServiceWorker
     \<Rightarrow> (js_error + Response) \<times> ServiceWorker" where
  "enqueue_write request requestBody newId now s =
     (case addToOfflineQueue (getRequestType (req_pathname request)) (req_url request)
             (req_method request) requestBody (req_headers request) newId now s of
        (Inl e, s1) \<Rightarrow> (Inl e, s1)
      | (Inr _, s1) \<Rightarrow> (Inr queuedResponse, s1))"

definition write_fallback ::
  "Request \<Rightarrow> string \<Rightarrow> int \<Rightarrow> ServiceWorker \<Rightarrow> (js_error + Response) \<times> ServiceWorker" where
  "write_fallback request newId now s =
     (if req_method request \<noteq> ''DELETE''
      then (case req_body request of
              Some used \<Rightarrow> (Inl (TypeError ''Request body is already used''), s)
            | None \<Rightarrow> enqueue_write request (Some []) newId now s)
      else enqueue_write request None newId now s)"

definition handleApiRequest ::
  "sw_network \<Rightarrow> Request \<Rightarrow> string \<Rightarrow> int \<Rightarrow> ServiceWorker
     \<Rightarrow> (js_error + Response) \<times> ServiceWorker" where
  "handleApiRequest net request newId now s =
     (if isAuthEndpoint request
      then (case net request of
              Inr networkResponse \<Rightarrow> (Inr networkResponse, s)
            | Inl error \<Rightarrow> (Inl error, s))
      else if isWriteOperation request
      then (case net request of
              Inr networkResponse \<Rightarrow>
                if ok networkResponse then (Inr networkResponse, s)
                else write_fallback request newId now s
            | Inl error \<Rightarrow> write_fallback request newId now s)
      else (case net request of
              Inr networkResponse \<Rightarrow>
                if ok networkResponse
                then
                  let s1 = (if req_method request = ''GET''
                            then s\<lparr>caches := (caches s)(req_url request \<mapsto> networkResponse)\<rparr>
                            else s)
                  in (case resp_body networkResponse of
                        Json responseData \<Rightarrow>
                          (Inr networkResponse,
                           storeApiDataInIndexedDB (req_pathname request) responseData now s1)
                      | Text _ \<Rightarrow> read_fallback request now s1)
                else read_fallback request now s
            | Inl error \<Rightarrow> read_fallback request now s))"

text \<open>
  The \<^verbatim>\<open>fetch\<close> listener. \<open>None\<close>: the request is not under \<^verbatim>\<open>/api/\<close> and goes to the
  strategies for pages and assets, which are not embedded here.
\<close>

definition fetch_listener ::
  "sw_network \<Rightarrow> Request \<Rightarrow> string \<Rightarrow> int \<Rightarrow> ServiceWorker
     \<Rightarrow> ((js_error + Response) \<times> ServiceWorker) option" where
  "fetch_listener net request newId now s =
     (if startsWith (req_pathname request) ''/api/''
      then Some (case handleApiRequest net request newId now s of
                   (Inl error, s1) \<Rightarrow>
                     if startsWith (req_pathname request) ''/api/auth/''
                     then (Inr authUnavailable, s1)
                     else (Inl error, s1)
                 | (Inr r, s1) \<Rightarrow> (Inr r, s1))
      else None)"

section \<open>Backoff schedule\<close>

text \<open>
  C4. For every retry count \<open>n \<ge> 1\<close> the computed delay is
  \<open>min (baseDelay * backoffMultiplier ^ (n - 1)) maxDelay\<close>, and with the default
  configuration the delays for the retry counts 1, 2 and 3 are 1000, 2000 and 4000 ms.
\<close>

theorem calculateRetryDelay_backoff:
  "(\<forall>n\<ge>1. calculateRetryDelay cfg n =
       min (baseDelay cfg * backoffMultiplier cfg ^ nat (n - 1)) (maxDelay cfg))
   \<and> calculateRetryDelay defaultRetryConfig 1 = 1000
   \<and> calculateRetryDelay defaultRetryConfig 2 = 2000
   \<and> calculateRetryDelay defaultRetryConfig 3 = 4000"
  by (simp add: calculateRetryDelay_def defaultRetryConfig_def power_int_def)

theorem calculateRetryDelay_backoff_witness:
  "(1::int) \<le> 4 \<and> calculateRetryDelay defaultRetryConfig 4 = 8000"
  using calculateRetryDelay_backoff [of defaultRetryConfig]
  by (simp add: defaultRetryConfig_def)

section \<open>The durable store\<close>

subsection \<open>Object stores\<close>

lemma find_insort_key_id:
  "List.find (\<lambda>r. id' r = k) (insort_key id' r xs) =
     (if id' r = k
      then (if \<exists>x\<in>set xs. id' x = k \<and> id' x < id' r
            then List.find (\<lambda>r. id' r = k) xs else Some r)
      else List.find (\<lambda>r. id' r = k) xs)"
  by (induction xs) auto

lemma os_get_delete: "os_get (os_delete os k) k' = (if k' = k then None else os_get os k')"
  unfolding os_get_def os_delete_def
  by (induction os) auto

lemma os_get_put: "os_get (os_put os r) k = (if k = id' r then Some r else os_get os k)"
proof -
  have "\<not> (\<exists>x\<in>set (os_delete os (id' r)). id' x = id' r)"
    by (simp add: os_delete_def)
  then show ?thesis
    using os_get_delete [of os "id' r" k]
    by (auto simp: os_put_def os_get_def find_insort_key_id os_delete_def)
qed

lemma os_get_Some_set: "os_get os k = Some r \<Longrightarrow> r \<in> set os \<and> id' r = k"
  by (auto simp: os_get_def find_Some_iff)


subsection \<open>Opening the database\<close>

lemma db_ensure_db: "db (ensure_db m)"
  by (simp add: ensure_db_def init_def)

lemma ensure_db_idem: "db m \<Longrightarrow> ensure_db m = m"
  by (simp add: ensure_db_def)

lemma ensure_db_ensure_db: "ensure_db (ensure_db m) = ensure_db m"
  by (simp add: ensure_db_idem db_ensure_db)



lemma init_fresh_stores:
  "objectStores (ensure_db (fresh :: 'a IndexedDBManager)) c =
     (if c \<in> {''prayerTimes'', ''events'', ''announcements'', ''donations'', ''community'',
               ''offlineQueue''}
      then Some [] else None)"
  by (simp add: ensure_db_def fresh_def init_def createObjectStore_def)

subsection \<open>The operations on an open database\<close>

lemma store_known:
  "objectStores (ensure_db m) c = Some os \<Longrightarrow>
   store c r ttl now m =
     (Inr (), write_store (ensure_db m) c (os_put os (r\<lparr>timestamp := now,
        expiresAt := (case ttl of None \<Rightarrow> None
                      | Some t \<Rightarrow> if t = 0 then None else Some (now + t * 60 * 1000))\<rparr>)))"
  by (simp add: store_def transaction_def)

lemma store_Inr:
  "store c r ttl now m = (Inr (), m') \<Longrightarrow>
   \<exists>os. objectStores (ensure_db m) c = Some os \<and>
     m' = write_store (ensure_db m) c (os_put os (r\<lparr>timestamp := now,
        expiresAt := (case ttl of None \<Rightarrow> None
                      | Some t \<Rightarrow> if t = 0 then None else Some (now + t * 60 * 1000))\<rparr>))"
  by (auto simp: store_def transaction_def Let_def split: option.splits)


lemma get_hit:
  "db m \<Longrightarrow> objectStores m c = Some os \<Longrightarrow> os_get os k = Some x \<Longrightarrow> \<not> expired now x
     \<Longrightarrow> get c k now m = (Inr (Some x), m)"
  by (simp add: get_def ensure_db_idem transaction_def)

lemma get_miss:
  "db m \<Longrightarrow> objectStores m c = Some os \<Longrightarrow> os_get os k = None
     \<Longrightarrow> get c k now m = (Inr None, m)"
  by (simp add: get_def ensure_db_idem transaction_def)




subsection \<open>Expiry\<close>







lemma set_os_delete: "set (os_delete q k) \<subseteq> set q"
  by (auto simp: os_delete_def)

lemma set_os_put: "set (os_put q r) \<subseteq> insert r (set q)"
  by (auto simp: os_put_def os_delete_def set_insort_key)










subsection \<open>Round trip\<close>

text \<open>
  In a collection that exists, \<^verbatim>\<open>put(collection, record)\<close> (at time \<open>t1\<close>, with any TTL)
  followed immediately by \<^verbatim>\<open>get(collection, record.id)\<close> (at time \<open>t2\<close>, before the expiry)
  returns a record that equals the one stored in every field except the injected
  \<^verbatim>\<open>timestamp\<close> and \<^verbatim>\<open>expiresAt\<close>, and leaves the store as it is.
\<close>

lemma store_then_get:
  assumes "objectStores (ensure_db m) c = Some os"
    and "\<forall>t. ttl = Some t \<and> t \<noteq> 0 \<longrightarrow> t2 \<le> t1 + t * 60 * 1000"
  shows "\<exists>m' r'. store c r ttl t1 m = (Inr (), m') \<and>
           get c (id' r) t2 m' = (Inr (Some r'), m') \<and>
           id' r' = id' r \<and> base.more r' = base.more r"
proof -
  define r1 where "r1 = r\<lparr>timestamp := t1,
        expiresAt := (case ttl of None \<Rightarrow> None
                      | Some t \<Rightarrow> if t = 0 then None else Some (t1 + t * 60 * 1000))\<rparr>"
  define m' where "m' = write_store (ensure_db m) c (os_put os r1)"
  have s: "store c r ttl t1 m = (Inr (), m')"
    unfolding m'_def r1_def by (rule store_known [OF assms(1)])
  have dbm: "db m'" by (simp add: m'_def write_store_def db_ensure_db)
  have st: "objectStores m' c = Some (os_put os r1)" by (simp add: m'_def write_store_def)
  have hit: "os_get (os_put os r1) (id' r) = Some r1" by (simp add: os_get_put r1_def)
  have ne: "\<not> expired t2 r1"
    using assms(2) by (auto simp: expired_def r1_def split: option.splits)
  have "get c (id' r) t2 m' = (Inr (Some r1), m')" by (rule get_hit [OF dbm st hit ne])
  moreover have "id' r1 = id' r" "base.more r1 = base.more r" by (simp_all add: r1_def)
  ultimately show ?thesis using s by blast
qed

text \<open>
  C7. For every collection and record, \<^verbatim>\<open>put\<close> followed by \<^verbatim>\<open>get\<close> returns the record. The
  code breaks this for the collection \<^verbatim>\<open>userData\<close>, which \<^verbatim>\<open>init\<close> does not create: on
  a database nobody has opened before, both \<^verbatim>\<open>store\<close> and the \<^verbatim>\<open>get\<close> after it reject with
  \<^verbatim>\<open>NotFoundError\<close>, and no record comes back.
\<close>

theorem userData_roundtrip_rejects:
  "fst (store ''userData'' r ttl t1 fresh) = Inl NotFoundError \<and>
   fst (get ''userData'' (id' r) t2 (snd (store ''userData'' r ttl t1 fresh)))
     = Inl NotFoundError"
  by (simp add: store_def get_def transaction_def init_fresh_stores ensure_db_ensure_db)

subsection \<open>Collections\<close>

text \<open>
  For the six object stores that \<^verbatim>\<open>init\<close> creates, \<^verbatim>\<open>store\<close> on a database nobody has opened
  before succeeds and upserts by id, and the record comes back from \<^verbatim>\<open>get\<close>.
\<close>

lemma store_fresh_collection:
  assumes "c \<in> {''prayerTimes'', ''events'', ''announcements'', ''donations'', ''community'',
                 ''offlineQueue''}"
  shows "fst (store c r ttl now fresh) = Inr () \<and>
         (\<exists>os r'. objectStores (snd (store c r ttl now fresh)) c = Some os \<and>
                   os_get os (id' r) = Some r' \<and> base.more r' = base.more r)"
proof -
  have "objectStores (ensure_db (fresh :: 'a IndexedDBManager)) c = Some []"
    using assms by (simp only: init_fresh_stores if_True)
  from store_known [OF this, of r ttl now] show ?thesis
    by (simp add: write_store_def os_get_put)
qed

lemma store_then_get_fresh:
  assumes "c \<in> {''prayerTimes'', ''events'', ''announcements'', ''donations'', ''community'',
                 ''offlineQueue''}"
    and "\<forall>t. ttl = Some t \<and> t \<noteq> 0 \<longrightarrow> t2 \<le> t1 + t * 60 * 1000"
  shows "\<exists>m' r'. store c r ttl t1 fresh = (Inr (), m') \<and>
           get c (id' r) t2 m' = (Inr (Some r'), m') \<and>
           id' r' = id' r \<and> base.more r' = base.more r"
proof -
  have "objectStores (ensure_db (fresh :: 'a IndexedDBManager)) c = Some []"
    using assms(1) by (simp only: init_fresh_stores if_True)
  from store_then_get [OF this assms(2)] show ?thesis .
qed

lemma store_upserts:
  assumes "objectStores (ensure_db m) c = Some os"
  shows "\<exists>os' r'. fst (store c r ttl now m) = Inr () \<and>
           objectStores (snd (store c r ttl now m)) c = Some os' \<and>
           os_get os' (id' r) = Some r' \<and> base.more r' = base.more r \<and>
           (\<forall>k. k \<noteq> id' r \<longrightarrow> os_get os' k = os_get os k)"
  using store_known [OF assms, of r ttl now]
  by (simp add: write_store_def os_get_put)

text \<open>
  C8. \<^verbatim>\<open>put\<close> into a collection that does not exist yet creates it and raises no error. The
  code does so for six of the seven collections; \<^verbatim>\<open>userData\<close>, which \<^verbatim>\<open>DBSchema\<close> declares
  and \<^verbatim>\<open>refreshUser\<close> writes to, is not created by \<^verbatim>\<open>init\<close>, and \<^verbatim>\<open>store\<close> rejects with
  \<^verbatim>\<open>NotFoundError\<close>.
\<close>

theorem store_userData_not_found:
  "fst (store ''userData'' r ttl now fresh) = Inl NotFoundError \<and>
   objectStores (snd (store ''userData'' r ttl now fresh)) ''userData'' = None"
  by (simp add: store_def transaction_def init_fresh_stores)

text \<open>
  When the service worker has opened the database first, \<^verbatim>\<open>init\<close> finds version 1 and
  creates nothing, and \<^verbatim>\<open>donations\<close> and \<^verbatim>\<open>community\<close> are missing as well.
\<close>

lemma store_after_worker_open:
  assumes "c \<in> {''donations'', ''community'', ''userData''}"
  shows "fst (store c r ttl now worker_opened) = Inl NotFoundError"
  using assms
  by (auto simp: store_def transaction_def ensure_db_def init_def worker_opened_def
      createObjectStore_def)

section \<open>The offline queue manager\<close>

subsection \<open>What one attempt does to the queue\<close>

lemma delete_open:
  "objectStores (ensure_db m) c = Some os \<Longrightarrow>
   delete c k m = (Inr (), write_store (ensure_db m) c (os_delete os k))"
  by (simp add: delete_def transaction_def)

lemma queue_of_open: "db (idb s) \<Longrightarrow> queue_of s = objectStores (idb s) ''offlineQueue''"
  by (simp add: queue_of_def ensure_db_idem)

lemma removeFromQueue_known:
  assumes "queue_of s = Some q"
  shows "\<exists>s1. removeFromQueue k s = (Inr (), s1) \<and> db (idb s1) \<and>
           queue_of s1 = Some (os_delete q k) \<and>
           dispatched s1 = dispatched s \<and> fetched s1 = fetched s \<and> drains s1 = drains s \<and>
           OfflineQueueManager.isOnline s1 = OfflineQueueManager.isOnline s"
  using delete_open [OF assms [unfolded queue_of_def], of k]
  by (simp add: removeFromQueue_def write_store_def db_ensure_db clearTimeout_def Let_def queue_of_def ensure_db_idem
      split: option.splits)

lemma scheduleRetry_frame:
  "idb (scheduleRetry k d s) = idb s" "dispatched (scheduleRetry k d s) = dispatched s"
  "fetched (scheduleRetry k d s) = fetched s" "drains (scheduleRetry k d s) = drains s"
  "OfflineQueueManager.isOnline (scheduleRetry k d s) = OfflineQueueManager.isOnline s"
  by (simp_all add: scheduleRetry_def clearTimeout_def Let_def split: option.splits)

lemma queue_of_scheduleRetry: "queue_of (scheduleRetry k d s) = queue_of s"
  by (simp add: queue_of_def scheduleRetry_frame)

lemma handleRetry_known:
  assumes "queue_of s = Some q"
  shows "\<exists>s1. handleRetry item now s = (Inr (), s1) \<and> db (idb s1) \<and>
           queue_of s1 =
             Some (if exhausted item then os_delete q (id' item)
                   else os_put q (item\<lparr>retryCount := retryCount item + 1, timestamp := now,
                                        expiresAt := None\<rparr>)) \<and>
           dispatched s1 = dispatched s @
             (if exhausted item
              then [offlineQueueFailure (id' item) (type' item) (url item) (method' item)
                      (retryCount item)]
              else []) \<and>
           fetched s1 = fetched s \<and> drains s1 = drains s \<and>
           OfflineQueueManager.isOnline s1 = OfflineQueueManager.isOnline s"
proof (cases "exhausted item")
  case True
  from removeFromQueue_known [OF assms, of "id' item"] obtain s1 where
    "removeFromQueue (id' item) s = (Inr (), s1)" "db (idb s1)"
    "queue_of s1 = Some (os_delete q (id' item))"
    "dispatched s1 = dispatched s" "fetched s1 = fetched s" "drains s1 = drains s"
    "OfflineQueueManager.isOnline s1 = OfflineQueueManager.isOnline s"
    by blast
  then show ?thesis
    using True
    by (simp add: handleRetry_def exhausted_def notifyFailure_def queue_of_def)
next
  case False
  note st = store_known [OF assms [unfolded queue_of_def],
      of "item\<lparr>retryCount := retryCount item + 1\<rparr>" None now]
  show ?thesis
    using False st
    by (simp add: handleRetry_def exhausted_def Let_def scheduleRetry_frame queue_of_def
        write_store_def db_ensure_db ensure_db_idem)
qed


lemma processQueueItem_known:
  assumes "queue_of s = Some q"
  shows "\<exists>s1. processQueueItem net item now s = (Inr (), s1) \<and> db (idb s1) \<and>
           queue_of s1 =
             Some (if (\<exists>r. net (requestInit item) = Inr r \<and> ok r) \<or> exhausted item
                   then os_delete q (id' item)
                   else os_put q (item\<lparr>retryCount := retryCount item + 1, timestamp := now,
                                        expiresAt := None\<rparr>)) \<and>
           dispatched s1 = dispatched s @
             (if \<exists>r. net (requestInit item) = Inr r \<and> ok r
              then [offlineQueueSuccess (id' item) (type' item) (url item) (method' item)]
              else if exhausted item
              then [offlineQueueFailure (id' item) (type' item) (url item) (method' item)
                      (retryCount item)]
              else []) \<and>
           fetched s1 = fetched s @ [requestInit item] \<and> drains s1 = drains s \<and>
           OfflineQueueManager.isOnline s1 = OfflineQueueManager.isOnline s"
proof -
  let ?s0 = "s\<lparr>fetched := fetched s @ [requestInit item]\<rparr>"
  have q0: "queue_of ?s0 = Some q" using assms by (simp add: queue_of_def)
  show ?thesis
  proof (cases "\<exists>r. net (requestInit item) = Inr r \<and> ok r")
    case True
    then obtain r where r: "net (requestInit item) = Inr r" "ok r" by blast
    from removeFromQueue_known [OF q0, of "id' item"] obtain s1 where
      "removeFromQueue (id' item) ?s0 = (Inr (), s1)" "db (idb s1)"
      "queue_of s1 = Some (os_delete q (id' item))"
      "dispatched s1 = dispatched ?s0" "fetched s1 = fetched ?s0" "drains s1 = drains ?s0"
      "OfflineQueueManager.isOnline s1 = OfflineQueueManager.isOnline ?s0"
      by blast
    then show ?thesis
      using r by (simp add: processQueueItem_def executeRequest_def notifySuccess_def queue_of_def)
  next
    case False
    then have pq: "processQueueItem net item now s = handleRetry item now ?s0"
      by (auto simp: processQueueItem_def executeRequest_def split: sum.splits)
    from handleRetry_known [OF q0, of item now] obtain s1 where
      h: "handleRetry item now ?s0 = (Inr (), s1)" "db (idb s1)"
      "queue_of s1 =
             Some (if exhausted item then os_delete q (id' item)
                   else os_put q (item\<lparr>retryCount := retryCount item + 1, timestamp := now,
                                        expiresAt := None\<rparr>))"
      "dispatched s1 = dispatched ?s0 @
             (if exhausted item
              then [offlineQueueFailure (id' item) (type' item) (url item) (method' item)
                      (retryCount item)]
              else [])"
      "fetched s1 = fetched ?s0" "drains s1 = drains ?s0"
      "OfflineQueueManager.isOnline s1 = OfflineQueueManager.isOnline ?s0"
      by blast
    show ?thesis
      apply (rule exI [of _ s1])
      using h False by (simp add: pq)
  qed
qed


subsection \<open>Queues without a TTL\<close>

lemma getAll_no_ttl:
  assumes "objectStores (ensure_db m) c = Some os" and "\<forall>x\<in>set os. expiresAt x = None"
  shows "getAll c now m = (Inr os, ensure_db m)"
proof -
  have e: "\<And>x. x \<in> set os \<Longrightarrow> \<not> expired now x"
    using assms(2) by (simp add: expired_def)
  then have "filter (expired now) os = []" "filter (\<lambda>item. \<not> expired now item) os = os"
    by (simp_all add: filter_empty_conv filter_id_conv)
  then show ?thesis
    using assms(1) by (simp add: getAll_def transaction_def)
qed

lemma get_no_ttl:
  assumes "objectStores (ensure_db m) c = Some os" and "\<forall>x\<in>set os. expiresAt x = None"
  shows "get c k now m = (Inr (os_get os k), ensure_db m)"
proof (cases "os_get os k")
  case None
  then show ?thesis using assms(1) by (simp add: get_def transaction_def)
next
  case (Some x)
  then have "x \<in> set os" using os_get_Some_set by blast
  then have "\<not> expired now x" using assms(2) by (simp add: expired_def)
  then show ?thesis using assms(1) Some by (simp add: get_def transaction_def)
qed

lemma queue_of_ensure: "queue_of (s\<lparr>idb := ensure_db (idb s)\<rparr>) = queue_of s"
  by (simp add: queue_of_def ensure_db_ensure_db)

lemma no_ttl_delete: "no_ttl q \<Longrightarrow> no_ttl (os_delete q k)"
  using set_os_delete [of q k] by (auto simp: no_ttl_def)

lemma no_ttl_put: "no_ttl q \<Longrightarrow> expiresAt r = None \<Longrightarrow> no_ttl (os_put q r)"
  using set_os_put [of q r] by (auto simp: no_ttl_def)


lemma has_key_delete: "has_key (os_delete q i) k = (k \<noteq> i \<and> has_key q k)"
  by (simp add: has_key_def os_get_delete)

lemma has_key_put: "has_key (os_put q r) k = (k = id' r \<or> has_key q k)"
  by (simp add: has_key_def os_get_put)

lemma replay_succeeded_iff:
  "replay_succeeded net item = (\<exists>r. net (requestInit item) = Inr r \<and> ok r)"
  by (simp add: replay_succeeded_def split: sum.splits)

lemma left_by_attempt_mono:
  assumes "left_by_attempt net item calls evs"
    and "set calls \<subseteq> set calls'" and "set evs \<subseteq> set evs'"
  shows "left_by_attempt net item calls' evs'"
  using assms by (auto simp: left_by_attempt_def split: if_splits)

lemma removed_by_attempts_refl: "removed_by_attempts net items q q calls evs"
  by (simp add: removed_by_attempts_def)

lemma removed_by_attempts_trans:
  assumes "removed_by_attempts net [item] q q1 calls evs"
    and "removed_by_attempts net items q1 q2 calls2 evs2"
  shows "removed_by_attempts net (item # items) q q2 (calls @ calls2) (evs @ evs2)"
  unfolding removed_by_attempts_def
proof (intro allI impI)
  fix k
  assume k: "has_key q k \<and> \<not> has_key q2 k"
  show "\<exists>i\<in>set (item # items). id' i = k \<and> left_by_attempt net i (calls @ calls2) (evs @ evs2)"
  proof (cases "has_key q1 k")
    case True
    with k assms(2) obtain i where "i \<in> set items" "id' i = k"
      "left_by_attempt net i calls2 evs2"
      by (auto simp: removed_by_attempts_def)
    then show ?thesis
      using left_by_attempt_mono [of net i calls2 evs2 "calls @ calls2" "evs @ evs2"] by auto
  next
    case False
    with k assms(1) have "id' item = k" "left_by_attempt net item calls evs"
      by (auto simp: removed_by_attempts_def)
    then show ?thesis
      using left_by_attempt_mono [of net item calls evs "calls @ calls2" "evs @ evs2"] by auto
  qed
qed

lemma removed_by_attempts_weaken:
  assumes "removed_by_attempts net items q q1 calls evs" and "set items \<subseteq> set items'"
  shows "removed_by_attempts net items' q q1 calls evs"
  using assms by (auto simp: removed_by_attempts_def)

lemma processQueueItem_leaves:
  assumes "queue_of s = Some q" and "no_ttl q"
  shows "\<exists>s1 q1 evs. processQueueItem net item now s = (Inr (), s1) \<and> db (idb s1) \<and>
           queue_of s1 = Some q1 \<and> no_ttl q1 \<and>
           dispatched s1 = dispatched s @ evs \<and>
           fetched s1 = fetched s @ [requestInit item] \<and>
           removed_by_attempts net [item] q q1 [requestInit item] evs \<and>
           drains s1 = drains s \<and>
           OfflineQueueManager.isOnline s1 = OfflineQueueManager.isOnline s"
proof -
  let ?ok = "\<exists>r. net (requestInit item) = Inr r \<and> ok r"
  let ?y = "item\<lparr>retryCount := retryCount item + 1, timestamp := now, expiresAt := None\<rparr>"
  let ?q1 = "if ?ok \<or> exhausted item then os_delete q (id' item) else os_put q ?y"
  let ?evs = "if ?ok
              then [offlineQueueSuccess (id' item) (type' item) (url item) (method' item)]
              else if exhausted item
              then [offlineQueueFailure (id' item) (type' item) (url item) (method' item)
                      (retryCount item)]
              else []"
  from processQueueItem_known [OF assms(1), of net item now] obtain s1 where
    p: "processQueueItem net item now s = (Inr (), s1)" "db (idb s1)"
    and q1: "queue_of s1 = Some ?q1"
    and ev: "dispatched s1 = dispatched s @ ?evs"
    and fr: "fetched s1 = fetched s @ [requestInit item]" "drains s1 = drains s"
      "OfflineQueueManager.isOnline s1 = OfflineQueueManager.isOnline s"
    by blast
  have n: "no_ttl ?q1"
    using assms(2) by (simp add: no_ttl_delete no_ttl_put)
  have r: "removed_by_attempts net [item] q ?q1 [requestInit item] ?evs"
    by (auto simp: removed_by_attempts_def has_key_delete has_key_put left_by_attempt_def
        replay_succeeded_iff)
  show ?thesis
    apply (rule exI [of _ s1])
    apply (rule exI [of _ ?q1])
    apply (rule exI [of _ ?evs])
    using p q1 ev fr n r by simp
qed

lemma process_items_leaves:
  assumes "queue_of s = Some q" and "no_ttl q" and "db (idb s)"
  shows "\<exists>q1 evs. db (idb (process_items net now xs s)) \<and>
           queue_of (process_items net now xs s) = Some q1 \<and> no_ttl q1 \<and>
           dispatched (process_items net now xs s) = dispatched s @ evs \<and>
           fetched (process_items net now xs s) = fetched s @ map requestInit xs \<and>
           removed_by_attempts net xs q q1 (map requestInit xs) evs \<and>
           drains (process_items net now xs s) = drains s \<and>
           OfflineQueueManager.isOnline (process_items net now xs s) = OfflineQueueManager.isOnline s"
  using assms
proof (induction xs arbitrary: s q)
  case Nil
  show ?case
    apply (rule exI [of _ q])
    apply (rule exI [of _ "[]"])
    using Nil by (simp add: removed_by_attempts_refl)
next
  case (Cons item xs)
  from processQueueItem_leaves [OF Cons.prems(1,2), of net item now] obtain s1 q1 evs where
    p: "processQueueItem net item now s = (Inr (), s1)" "db (idb s1)"
    "queue_of s1 = Some q1" "no_ttl q1"
    "dispatched s1 = dispatched s @ evs"
    "fetched s1 = fetched s @ [requestInit item]"
    "removed_by_attempts net [item] q q1 [requestInit item] evs"
    "drains s1 = drains s"
    "OfflineQueueManager.isOnline s1 = OfflineQueueManager.isOnline s"
    by blast
  from Cons.IH [OF p(3,4,2)] obtain q2 evs2 where
    i: "db (idb (process_items net now xs s1))"
    "queue_of (process_items net now xs s1) = Some q2" "no_ttl q2"
    "dispatched (process_items net now xs s1) = dispatched s1 @ evs2"
    "fetched (process_items net now xs s1) = fetched s1 @ map requestInit xs"
    "removed_by_attempts net xs q1 q2 (map requestInit xs) evs2"
    "drains (process_items net now xs s1) = drains s1"
    "OfflineQueueManager.isOnline (process_items net now xs s1) = OfflineQueueManager.isOnline s1"
    by blast
  note r = removed_by_attempts_trans [OF p(7) i(6)]
  show ?case
    apply (rule exI [of _ q2])
    apply (rule exI [of _ "evs @ evs2"])
    using p i r by simp
qed

subsection \<open>What the operations do to the queue\<close>

lemma addToQueue_known:
  assumes "queue_of s = Some q"
  shows "\<exists>s1. addToQueue u m b h t rc newId now s = (Inr newId, s1) \<and> db (idb s1) \<and>
           queue_of s1 =
             Some (os_put q \<lparr>id' = newId, timestamp = now, expiresAt = None, url = u,
                     method' = m, body = b,
                     headers = (case h of None \<Rightarrow> [] | Some h' \<Rightarrow> h'),
                     retryCount = 0,
                     maxRetries = Some (RetryConfig.maxRetries (merge_config defaultRetryConfig rc)),
                     type' = t\<rparr>) \<and>
           dispatched s1 = dispatched s \<and> fetched s1 = fetched s"
  using store_known [OF assms [unfolded queue_of_def], where ttl = None and now = now]
  by (simp add: addToQueue_def Let_def queue_of_def scheduleRetry_frame write_store_def
      db_ensure_db ensure_db_idem)

lemma clearQueue_known:
  assumes "queue_of s = Some q"
  shows "queue_of (snd (clearQueue s)) = Some [] \<and>
         dispatched (snd (clearQueue s)) = dispatched s \<and>
         fetched (snd (clearQueue s)) = fetched s"
  using assms
  by (simp add: clearQueue_def clear_def Let_def queue_of_def transaction_def write_store_def
      db_ensure_db ensure_db_idem)

lemma unchanged_leaves:
  assumes "queue_of s1 = Some q" and "no_ttl q" and "dispatched s1 = dispatched s"
    and "fetched s1 = fetched s"
  shows "\<exists>q1 evs calls. queue_of s1 = Some q1 \<and> no_ttl q1 \<and>
           dispatched s1 = dispatched s @ evs \<and> fetched s1 = fetched s @ calls \<and>
           removed_by_attempts net q q q1 calls evs"
  apply (rule exI [of _ q])
  apply (rule exI [of _ "[]"])
  apply (rule exI [of _ "[]"])
  using assms by (simp add: removed_by_attempts_refl)

lemma processQueue_read_no_ttl:
  assumes "queue_of s = Some q" and "no_ttl q"
  shows "processQueue_read now s =
           (if OfflineQueueManager.isOnline s
            then (Some q, s\<lparr>idb := ensure_db (idb s), drains := drains s + 1\<rparr>)
            else (None, s))"
  using getAll_no_ttl [OF assms(1) [unfolded queue_of_def] assms(2) [unfolded no_ttl_def], of now]
  by (simp add: processQueue_read_def)

lemma processQueue_leaves:
  assumes "queue_of s = Some q" and "no_ttl q"
  shows "\<exists>q1 evs calls. queue_of (processQueue net now s) = Some q1 \<and> no_ttl q1 \<and>
           dispatched (processQueue net now s) = dispatched s @ evs \<and>
           fetched (processQueue net now s) = fetched s @ calls \<and>
           removed_by_attempts net q q q1 calls evs"
proof (cases "OfflineQueueManager.isOnline s")
  case False
  then have "processQueue net now s = s"
    by (simp add: processQueue_def processQueue_read_def processQueue_loop_def)
  then show ?thesis using unchanged_leaves [OF assms, of s net] by simp
next
  case True
  let ?s0 = "s\<lparr>idb := ensure_db (idb s), drains := drains s + 1\<rparr>"
  have p: "processQueue net now s = process_items net now q ?s0"
    using True
    by (simp add: processQueue_def processQueue_read_no_ttl [OF assms] processQueue_loop_def)
  have q0: "queue_of ?s0 = Some q" using assms(1) by (simp add: queue_of_def ensure_db_ensure_db)
  have d0: "db (idb ?s0)" by (simp add: db_ensure_db)
  from process_items_leaves [OF q0 assms(2) d0, of net now q]
  obtain q1 evs where
    "queue_of (process_items net now q ?s0) = Some q1" "no_ttl q1"
    "dispatched (process_items net now q ?s0) = dispatched ?s0 @ evs"
    "fetched (process_items net now q ?s0) = fetched ?s0 @ map requestInit q"
    "removed_by_attempts net q q q1 (map requestInit q) evs"
    by blast
  then show ?thesis
    by (intro exI [of _ q1] exI [of _ evs] exI [of _ "map requestInit q"]) (simp add: p)
qed

lemma attempt_leaves:
  assumes "queue_of s = Some q" and "no_ttl q" and "item \<in> set q"
  shows "\<exists>q1 evs calls. queue_of (snd (processQueueItem net item now s)) = Some q1 \<and>
           no_ttl q1 \<and>
           dispatched (snd (processQueueItem net item now s)) = dispatched s @ evs \<and>
           fetched (snd (processQueueItem net item now s)) = fetched s @ calls \<and>
           removed_by_attempts net q q q1 calls evs"
proof -
  from processQueueItem_leaves [OF assms(1,2), of net item now]
  obtain s1 q1 evs where p: "processQueueItem net item now s = (Inr (), s1)"
    "queue_of s1 = Some q1" "no_ttl q1"
    "dispatched s1 = dispatched s @ evs"
    "fetched s1 = fetched s @ [requestInit item]"
    "removed_by_attempts net [item] q q1 [requestInit item] evs"
    by blast
  have "removed_by_attempts net q q q1 [requestInit item] evs"
    using removed_by_attempts_weaken [OF p(6), of q] assms(3) by simp
  then show ?thesis
    using p by (intro exI [of _ q1] exI [of _ evs] exI [of _ "[requestInit item]"]) simp
qed

lemma retryTimeouts_update_frame:
  "queue_of (s\<lparr>retryTimeouts := f\<rparr>) = queue_of s"
  "queue_of (clearTimeout h s) = queue_of s"
  "dispatched (clearTimeout h s) = dispatched s"
  "fetched (clearTimeout h s) = fetched s"
  by (simp_all add: queue_of_def clearTimeout_def)

lemma fireTimer_leaves:
  assumes "queue_of s = Some q" and "no_ttl q"
  shows "\<exists>q1 evs calls. queue_of (fireTimer net now h s) = Some q1 \<and> no_ttl q1 \<and>
           dispatched (fireTimer net now h s) = dispatched s @ evs \<and>
           fetched (fireTimer net now h s) = fetched s @ calls \<and>
           removed_by_attempts net q q q1 calls evs"
proof (cases "List.find (\<lambda>t. fst t = h) (timers s)")
  case None
  then have "fireTimer net now h s = s" by (simp add: fireTimer_def)
  then show ?thesis using unchanged_leaves [OF assms, of s net] by simp
next
  case (Some t)
  obtain h' itemId d where t: "t = (h', itemId, d)" by (cases t)
  let ?s = "clearTimeout h s"
  have qs: "queue_of ?s = Some q" using assms(1) by (simp add: retryTimeouts_update_frame)
  have g: "get ''offlineQueue'' itemId now (idb ?s) = (Inr (os_get q itemId), ensure_db (idb ?s))"
    using get_no_ttl [OF qs [unfolded queue_of_def] assms(2) [unfolded no_ttl_def]] .
  let ?s1 = "?s\<lparr>idb := ensure_db (idb ?s)\<rparr>"
  have q1: "queue_of ?s1 = Some q" using qs by (simp add: queue_of_def ensure_db_ensure_db)
  show ?thesis
  proof (cases "os_get q itemId")
    case None
    have "fireTimer net now h s = ?s1\<lparr>retryTimeouts := (retryTimeouts ?s1)(itemId := None)\<rparr>"
      using Some t g None by (simp add: fireTimer_def Let_def)
    then show ?thesis
      using unchanged_leaves [OF _ assms(2),
          of "?s1\<lparr>retryTimeouts := (retryTimeouts ?s1)(itemId := None)\<rparr>" s net] q1
      by (simp add: retryTimeouts_update_frame clearTimeout_def)
  next
    case (Some item)
    let ?s2 = "snd (processQueueItem net item now ?s1)"
    have f: "fireTimer net now h s = ?s2\<lparr>retryTimeouts := (retryTimeouts ?s2)(itemId := None)\<rparr>"
      using \<open>List.find (\<lambda>t. fst t = h) (timers s) = Some t\<close> t g Some
      by (simp add: fireTimer_def Let_def)
    have mem: "item \<in> set q" using os_get_Some_set [OF Some] by simp
    from attempt_leaves [OF q1 assms(2) mem, of net now]
    show ?thesis by (simp add: f retryTimeouts_update_frame clearTimeout_def)
  qed
qed

lemma retryItem_leaves:
  assumes "queue_of s = Some q" and "no_ttl q"
  shows "\<exists>q1 evs calls. queue_of (snd (retryItem net k0 now s)) = Some q1 \<and> no_ttl q1 \<and>
           dispatched (snd (retryItem net k0 now s)) = dispatched s @ evs \<and>
           fetched (snd (retryItem net k0 now s)) = fetched s @ calls \<and>
           removed_by_attempts net q q q1 calls evs"
proof -
  have g: "get ''offlineQueue'' k0 now (idb s) = (Inr (os_get q k0), ensure_db (idb s))"
    using get_no_ttl [OF assms(1) [unfolded queue_of_def] assms(2) [unfolded no_ttl_def]] .
  let ?s1 = "s\<lparr>idb := ensure_db (idb s)\<rparr>"
  have q1: "queue_of ?s1 = Some q" using assms(1) by (simp add: queue_of_def ensure_db_ensure_db)
  show ?thesis
  proof (cases "os_get q k0")
    case None
    then have "snd (retryItem net k0 now s) = ?s1" by (simp add: retryItem_def g)
    then show ?thesis using unchanged_leaves [OF q1 assms(2), of s net] by simp
  next
    case (Some item)
    have mem: "item \<in> set q" using os_get_Some_set [OF Some] by simp
    show ?thesis
    proof (cases "OfflineQueueManager.isOnline s")
      case True
      then have "snd (retryItem net k0 now s) = snd (processQueueItem net item now ?s1)"
        using Some by (simp add: retryItem_def g)
      then show ?thesis using attempt_leaves [OF q1 assms(2) mem, of net now] by simp
    next
      case False
      then have "snd (retryItem net k0 now s) = ?s1" using Some by (simp add: retryItem_def g)
      then show ?thesis using unchanged_leaves [OF q1 assms(2), of s net] by simp
    qed
  qed
qed

lemma leaves_any_call:
  assumes "\<exists>q1 evs calls. queue_of s' = Some q1 \<and> no_ttl q1 \<and>
             dispatched s' = dispatched s @ evs \<and> fetched s' = fetched s @ calls \<and>
             removed_by_attempts net q q q1 calls evs"
  shows "\<exists>q1 evs calls. queue_of s' = Some q1 \<and> no_ttl q1 \<and>
           dispatched s' = dispatched s @ evs \<and> fetched s' = fetched s @ calls \<and>
           (\<forall>k. has_key q k \<and> \<not> has_key q1 k \<longrightarrow>
                 c = ClearQueue \<or> c = RemoveQueueItem k \<or>
                 (\<exists>item\<in>set q. id' item = k \<and> left_by_attempt net item calls evs))"
proof -
  from assms obtain q1 evs calls where a: "queue_of s' = Some q1" "no_ttl q1"
    "dispatched s' = dispatched s @ evs" "fetched s' = fetched s @ calls"
    "removed_by_attempts net q q q1 calls evs"
    by blast
  have "\<forall>k. has_key q k \<and> \<not> has_key q1 k \<longrightarrow>
                 c = ClearQueue \<or> c = RemoveQueueItem k \<or>
                 (\<exists>item\<in>set q. id' item = k \<and> left_by_attempt net item calls evs)"
    using a(5) by (simp add: removed_by_attempts_def)
  then show ?thesis
    using a by (intro exI [of _ q1] exI [of _ evs] exI [of _ calls]) simp
qed

lemma perform_leaves:
  assumes "queue_of s = Some q" and "no_ttl q"
  shows "\<exists>q1 evs calls. queue_of (perform net now c s) = Some q1 \<and> no_ttl q1 \<and>
           dispatched (perform net now c s) = dispatched s @ evs \<and>
           fetched (perform net now c s) = fetched s @ calls \<and>
           (\<forall>k. has_key q k \<and> \<not> has_key q1 k \<longrightarrow>
                 c = ClearQueue \<or> c = RemoveQueueItem k \<or>
                 (\<exists>item\<in>set q. id' item = k \<and> left_by_attempt net item calls evs))"
proof (cases c)
  case (AddToQueue u m b h t rc newId)
  let ?x = "\<lparr>id' = newId, timestamp = now, expiresAt = None, url = u,
             method' = m, body = b,
             headers = (case h of None \<Rightarrow> [] | Some h' \<Rightarrow> h'),
             retryCount = 0,
             maxRetries = Some (RetryConfig.maxRetries (merge_config defaultRetryConfig rc)),
             type' = t\<rparr>"
  from addToQueue_known [OF assms(1), of u m b h t rc newId now] obtain s1 where
    a: "addToQueue u m b h t rc newId now s = (Inr newId, s1)"
    "queue_of s1 = Some (os_put q ?x)"
    "dispatched s1 = dispatched s" "fetched s1 = fetched s" by blast
  show ?thesis
    apply (rule exI [of _ "os_put q ?x"])
    apply (rule exI [of _ "[]"])
    apply (rule exI [of _ "[]"])
    using a assms(2) by (auto simp add: AddToQueue no_ttl_put has_key_put)
next
  case ProcessQueue
  show ?thesis
    unfolding ProcessQueue perform.simps
    by (rule leaves_any_call [OF processQueue_leaves [OF assms]])
next
  case (FireTimer h)
  show ?thesis
    unfolding FireTimer perform.simps
    by (rule leaves_any_call [OF fireTimer_leaves [OF assms]])
next
  case GetQueueStatus
  have g: "getAll ''offlineQueue'' now (idb s) = (Inr q, ensure_db (idb s))"
    using getAll_no_ttl [OF assms(1) [unfolded queue_of_def] assms(2) [unfolded no_ttl_def]] .
  have e: "snd (getQueueStatus now s) = s\<lparr>idb := ensure_db (idb s)\<rparr>"
    by (simp add: getQueueStatus_def g)
  have "queue_of (s\<lparr>idb := ensure_db (idb s)\<rparr>) = Some q"
    using assms(1) by (simp add: queue_of_ensure)
  from unchanged_leaves [OF this assms(2), of s net]
  show ?thesis
    unfolding GetQueueStatus perform.simps e
    by (intro leaves_any_call) simp
next
  case ClearQueue
  show ?thesis
    apply (rule exI [of _ "[]"])
    apply (rule exI [of _ "[]"])
    apply (rule exI [of _ "[]"])
    using clearQueue_known [OF assms(1)] by (simp add: ClearQueue no_ttl_def)
next
  case (RemoveQueueItem k0)
  from removeFromQueue_known [OF assms(1), of k0] obtain s1 where
    r: "removeFromQueue k0 s = (Inr (), s1)" "queue_of s1 = Some (os_delete q k0)"
    "dispatched s1 = dispatched s" "fetched s1 = fetched s" by blast
  show ?thesis
    apply (rule exI [of _ "os_delete q k0"])
    apply (rule exI [of _ "[]"])
    apply (rule exI [of _ "[]"])
    using r assms(2)
    by (auto simp add: RemoveQueueItem removeQueueItem_def no_ttl_delete has_key_delete)
next
  case (RetryItem k0)
  show ?thesis
    unfolding RetryItem perform.simps
    by (rule leaves_any_call [OF retryItem_leaves [OF assms]])
next
  case Online
  have q: "queue_of (s\<lparr>OfflineQueueManager.isOnline := True\<rparr>) = Some q"
    using assms(1) by (simp add: queue_of_def)
  from processQueue_leaves [OF q assms(2), of net now]
  show ?thesis
    unfolding Online perform.simps manager_online_def
    by (intro leaves_any_call) simp
next
  case Offline
  have "queue_of (manager_offline s) = Some q" "dispatched (manager_offline s) = dispatched s"
    "fetched (manager_offline s) = fetched s"
    using assms(1) by (simp_all add: queue_of_def manager_offline_def)
  from unchanged_leaves [OF this(1) assms(2) this(2,3), of net]
  show ?thesis
    unfolding Offline perform.simps
    by (rule leaves_any_call)
qed

subsection \<open>What the operations leave alone\<close>

lemma removeFromQueue_frame:
  "drains (snd (removeFromQueue k s)) = drains s"
  "OfflineQueueManager.isOnline (snd (removeFromQueue k s)) = OfflineQueueManager.isOnline s"
  "fetched (snd (removeFromQueue k s)) = fetched s"
  by (simp_all add: removeFromQueue_def clearTimeout_def Let_def
      split: prod.splits sum.splits option.splits)

lemma handleRetry_frame:
  "drains (snd (handleRetry item now s)) = drains s"
  "OfflineQueueManager.isOnline (snd (handleRetry item now s)) = OfflineQueueManager.isOnline s"
  "fetched (snd (handleRetry item now s)) = fetched s"
proof -
  obtain r s1 where r: "removeFromQueue (id' item) s = (r, s1)"
    by (cases "removeFromQueue (id' item) s")
  have f: "drains s1 = drains s" "OfflineQueueManager.isOnline s1 = OfflineQueueManager.isOnline s"
    "fetched s1 = fetched s"
    using removeFromQueue_frame [of "id' item" s] by (simp_all add: r)
  show "drains (snd (handleRetry item now s)) = drains s"
    using f by (simp add: handleRetry_def r notifyFailure_def Let_def scheduleRetry_frame
        split: prod.splits sum.splits)
  show "OfflineQueueManager.isOnline (snd (handleRetry item now s)) = OfflineQueueManager.isOnline s"
    using f by (simp add: handleRetry_def r notifyFailure_def Let_def scheduleRetry_frame
        split: prod.splits sum.splits)
  show "fetched (snd (handleRetry item now s)) = fetched s"
    using f by (simp add: handleRetry_def r notifyFailure_def Let_def scheduleRetry_frame
        split: prod.splits sum.splits)
qed

lemma processQueueItem_frame:
  "drains (snd (processQueueItem net item now s)) = drains s"
  "OfflineQueueManager.isOnline (snd (processQueueItem net item now s)) = OfflineQueueManager.isOnline s"
  "fetched (snd (processQueueItem net item now s)) = fetched s @ [requestInit item]"
proof -
  let ?s0 = "s\<lparr>fetched := fetched s @ [requestInit item]\<rparr>"
  obtain r s1 where r: "removeFromQueue (id' item) ?s0 = (r, s1)"
    by (cases "removeFromQueue (id' item) ?s0")
  have f: "drains s1 = drains s" "OfflineQueueManager.isOnline s1 = OfflineQueueManager.isOnline s"
    "fetched s1 = fetched s @ [requestInit item]"
    using removeFromQueue_frame [of "id' item" ?s0] by (simp_all add: r)
  show "drains (snd (processQueueItem net item now s)) = drains s"
    using f handleRetry_frame(1) [of item now ?s0] handleRetry_frame(1) [of item now s1]
    by (simp add: processQueueItem_def executeRequest_def r notifySuccess_def
        split: prod.splits sum.splits)
  show "OfflineQueueManager.isOnline (snd (processQueueItem net item now s)) = OfflineQueueManager.isOnline s"
    using f handleRetry_frame(2) [of item now ?s0] handleRetry_frame(2) [of item now s1]
    by (simp add: processQueueItem_def executeRequest_def r notifySuccess_def
        split: prod.splits sum.splits)
  show "fetched (snd (processQueueItem net item now s)) = fetched s @ [requestInit item]"
    using f handleRetry_frame(3) [of item now ?s0] handleRetry_frame(3) [of item now s1]
    by (simp add: processQueueItem_def executeRequest_def r notifySuccess_def
        split: prod.splits sum.splits)
qed

lemma process_items_frame:
  "drains (process_items net now xs s) = drains s \<and>
   OfflineQueueManager.isOnline (process_items net now xs s) = OfflineQueueManager.isOnline s"
proof (induction xs arbitrary: s)
  case Nil
  show ?case by simp
next
  case (Cons item xs)
  obtain r s1 where r: "processQueueItem net item now s = (r, s1)"
    by (cases "processQueueItem net item now s")
  have f: "drains s1 = drains s" "OfflineQueueManager.isOnline s1 = OfflineQueueManager.isOnline s"
    using processQueueItem_frame [of net item now s] by (simp_all add: r)
  show ?case using f Cons.IH [of s1] by (simp add: r split: sum.splits)
qed

lemma processQueue_read_frame:
  "drains (snd (processQueue_read now s)) =
     (if OfflineQueueManager.isOnline s then drains s + 1 else drains s)"
  "OfflineQueueManager.isOnline (snd (processQueue_read now s)) = OfflineQueueManager.isOnline s"
  by (simp_all add: processQueue_read_def split: prod.splits sum.splits)

lemma processQueue_loop_frame:
  "drains (processQueue_loop net now read s) = drains s"
  "OfflineQueueManager.isOnline (processQueue_loop net now read s) = OfflineQueueManager.isOnline s"
  by (simp_all add: processQueue_loop_def process_items_frame split: option.splits)

lemma processQueue_drains:
  "drains (processQueue net now s) =
     (if OfflineQueueManager.isOnline s then drains s + 1 else drains s)"
  "OfflineQueueManager.isOnline (processQueue net now s) = OfflineQueueManager.isOnline s"
proof -
  obtain read s1 where r: "processQueue_read now s = (read, s1)"
    by (cases "processQueue_read now s")
  have f: "drains s1 = (if OfflineQueueManager.isOnline s then drains s + 1 else drains s)"
    "OfflineQueueManager.isOnline s1 = OfflineQueueManager.isOnline s"
    using processQueue_read_frame [of now s] by (simp_all add: r)
  show "drains (processQueue net now s) =
     (if OfflineQueueManager.isOnline s then drains s + 1 else drains s)"
    using f by (simp add: processQueue_def r processQueue_loop_frame)
  show "OfflineQueueManager.isOnline (processQueue net now s) = OfflineQueueManager.isOnline s"
    using f by (simp add: processQueue_def r processQueue_loop_frame)
qed

lemma processQueue_offline: "\<not> OfflineQueueManager.isOnline s \<Longrightarrow> processQueue net now s = s"
  by (simp add: processQueue_def processQueue_read_def processQueue_loop_def)

lemma getQueueStatus_frame:
  "drains (snd (getQueueStatus now s)) = drains s"
  "OfflineQueueManager.isOnline (snd (getQueueStatus now s)) = OfflineQueueManager.isOnline s"
  "fetched (snd (getQueueStatus now s)) = fetched s"
  by (simp_all add: getQueueStatus_def split: prod.splits sum.splits)

lemma updateQueuedRequests_frame:
  "drains (manager (updateQueuedRequests now st)) = drains (manager st)"
  "syncInProgress (offline (updateQueuedRequests now st)) = syncInProgress (offline st)"
  "isOnline (offline (updateQueuedRequests now st)) = isOnline (offline st)"
  "OfflineQueueManager.isOnline (manager (updateQueuedRequests now st)) =
     OfflineQueueManager.isOnline (manager st)"
  "fetched (manager (updateQueuedRequests now st)) = fetched (manager st)"
proof -
  obtain r m where r: "getQueueStatus now (manager st) = (r, m)"
    by (cases "getQueueStatus now (manager st)")
  have f: "drains m = drains (manager st)"
    "OfflineQueueManager.isOnline m = OfflineQueueManager.isOnline (manager st)"
    "fetched m = fetched (manager st)"
    using getQueueStatus_frame [of now "manager st"] by (simp_all add: r)
  show "drains (manager (updateQueuedRequests now st)) = drains (manager st)"
    using f by (simp add: updateQueuedRequests_def r split: sum.splits prod.splits)
  show "syncInProgress (offline (updateQueuedRequests now st)) = syncInProgress (offline st)"
    by (simp add: updateQueuedRequests_def r split: sum.splits prod.splits)
  show "isOnline (offline (updateQueuedRequests now st)) = isOnline (offline st)"
    by (simp add: updateQueuedRequests_def r split: sum.splits prod.splits)
  show "OfflineQueueManager.isOnline (manager (updateQueuedRequests now st)) =
     OfflineQueueManager.isOnline (manager st)"
    using f by (simp add: updateQueuedRequests_def r split: sum.splits prod.splits)
  show "fetched (manager (updateQueuedRequests now st)) = fetched (manager st)"
    using f by (simp add: updateQueuedRequests_def r split: sum.splits prod.splits)
qed

lemma syncOfflineData_guard:
  "syncInProgress (offline st) \<Longrightarrow> syncOfflineData net now st = st"
  by (simp add: syncOfflineData_def syncOfflineData_begin_def)

lemma syncOfflineData_drains:
  "drains (manager (syncOfflineData net now st)) =
     (if isOnline (offline st) \<and> \<not> syncInProgress (offline st) \<and>
         OfflineQueueManager.isOnline (manager st)
      then drains (manager st) + 1 else drains (manager st))"
  by (simp add: syncOfflineData_def syncOfflineData_begin_def syncOfflineData_rest_def Let_def
      updateQueuedRequests_frame processQueue_drains)

text \<open>
  The two drains of one \<^verbatim>\<open>online\<close> event, as long as no sync is in progress: the state
  after the event, written out.
\<close>

lemma window_online_unfold:
  assumes "\<not> syncInProgress (offline st)"
    and r1: "processQueue_read now ((manager st)\<lparr>OfflineQueueManager.isOnline := True\<rparr>)
               = (read1, m1)"
    and r2: "processQueue_read now m1 = (read2, m2)"
  shows "manager (window_online net now st) =
           manager (updateQueuedRequests now
             (updateQueuedRequests now
                (st\<lparr>offline := (offline st)\<lparr>isOnline := True, syncInProgress := True\<rparr>,
                    manager := m2\<rparr>)
              \<lparr>manager :=
                 processQueue_loop net now read2
                   (processQueue_loop net now read1
                      (manager (updateQueuedRequests now
                         (st\<lparr>offline := (offline st)\<lparr>isOnline := True,
                                                      syncInProgress := True\<rparr>,
                             manager := m2\<rparr>))))\<rparr>))"
  using assms(1)
  by (simp add: window_online_def r1 r2 syncOfflineData_begin_def Let_def)

lemma window_online_drains:
  assumes "\<not> syncInProgress (offline st)"
  shows "drains (manager (window_online net now st)) = drains (manager st) + 2"
proof -
  obtain read1 m1 where
    r1: "processQueue_read now ((manager st)\<lparr>OfflineQueueManager.isOnline := True\<rparr>)
           = (read1, m1)"
    by (cases "processQueue_read now ((manager st)\<lparr>OfflineQueueManager.isOnline := True\<rparr>)")
  obtain read2 m2 where r2: "processQueue_read now m1 = (read2, m2)"
    by (cases "processQueue_read now m1")
  have f1: "drains m1 = drains (manager st) + 1" "OfflineQueueManager.isOnline m1"
    using processQueue_read_frame [of now "(manager st)\<lparr>OfflineQueueManager.isOnline := True\<rparr>"]
    by (simp_all add: r1)
  have f2: "drains m2 = drains (manager st) + 2"
    using processQueue_read_frame(1) [of now m1] f1 by (simp add: r2)
  show ?thesis
    by (simp add: window_online_unfold [OF assms r1 r2] updateQueuedRequests_frame
        processQueue_loop_frame f2)
qed

text \<open>
  With a queue in place (and free of TTLs), both drains read the same items before any of
  them is attempted, and every queued request is sent twice.
\<close>

lemma updateQueuedRequests_no_ttl:
  assumes "queue_of (manager st) = Some q" and "no_ttl q"
  shows "manager (updateQueuedRequests now st) =
           (manager st)\<lparr>idb := ensure_db (idb (manager st))\<rparr>"
  using getAll_no_ttl [OF assms(1) [unfolded queue_of_def] assms(2) [unfolded no_ttl_def], of now]
  by (simp add: updateQueuedRequests_def getQueueStatus_def)

lemma window_online_sends_twice:
  assumes "\<not> syncInProgress (offline st)"
    and q: "queue_of (manager st) = Some q" and n: "no_ttl q"
  shows "fetched (manager (window_online net now st)) =
           fetched (manager st) @ map requestInit q @ map requestInit q"
proof -
  let ?m0 = "(manager st)\<lparr>OfflineQueueManager.isOnline := True\<rparr>"
  let ?m1 = "?m0\<lparr>idb := ensure_db (idb ?m0), drains := drains ?m0 + 1\<rparr>"
  let ?m2 = "?m1\<lparr>idb := ensure_db (idb ?m1), drains := drains ?m1 + 1\<rparr>"
  let ?st2 = "st\<lparr>offline := (offline st)\<lparr>isOnline := True, syncInProgress := True\<rparr>,
                  manager := ?m2\<rparr>"
  have q0: "queue_of ?m0 = Some q" using q by (simp add: queue_of_def)
  have r1: "processQueue_read now ?m0 = (Some q, ?m1)"
    using processQueue_read_no_ttl [OF q0 n, of now] by simp
  have q1: "queue_of ?m1 = Some q" using q by (simp add: queue_of_def ensure_db_ensure_db)
  have r2: "processQueue_read now ?m1 = (Some q, ?m2)"
    using processQueue_read_no_ttl [OF q1 n, of now] by simp
  have q2: "queue_of (manager ?st2) = Some q"
    using q by (simp add: queue_of_def ensure_db_ensure_db)
  define m3 where "m3 = manager (updateQueuedRequests now ?st2)"
  have m3: "m3 = ?m2\<lparr>idb := ensure_db (idb ?m2)\<rparr>"
    using updateQueuedRequests_no_ttl [OF q2 n, of now] by (simp add: m3_def)
  have q3: "queue_of m3 = Some q" "db (idb m3)" "fetched m3 = fetched (manager st)"
    using q by (simp_all add: m3 queue_of_def ensure_db_ensure_db db_ensure_db)
  from process_items_leaves [OF q3(1) n q3(2), of net now q] obtain q4 where
    l1: "db (idb (process_items net now q m3))"
    "queue_of (process_items net now q m3) = Some q4" "no_ttl q4"
    "fetched (process_items net now q m3) = fetched m3 @ map requestInit q"
    by blast
  from process_items_leaves [OF l1(2,3,1), of net now q]
  have l2: "fetched (process_items net now q (process_items net now q m3)) =
              fetched (process_items net now q m3) @ map requestInit q"
    by blast
  have "fetched (manager (window_online net now st)) =
          fetched (process_items net now q (process_items net now q m3))"
    unfolding m3_def
    by (simp add: window_online_unfold [OF assms(1) r1 r2] updateQueuedRequests_frame
        processQueue_loop_def)
  then show ?thesis by (simp add: l1(4) l2 q3(3))
qed

subsection \<open>Small queues\<close>

lemma queue_of_new_fresh: "queue_of (new_OfflineQueueManager onLine fresh) = Some []"
  by (simp add: queue_of_def new_OfflineQueueManager_def init_fresh_stores)

lemma os_put_Nil: "os_put [] r = [r]"
  by (simp add: os_put_def os_delete_def)

lemma os_put_single: "id' x = id' r \<Longrightarrow> os_put [x] r = [r]"
  by (simp add: os_put_def os_delete_def)

subsection \<open>The retry bound\<close>

text \<open>
  For an item that is not yet exhausted, a failed attempt stores it with the count raised
  by one, and the count stays within the number of retries \<^verbatim>\<open>handleRetry\<close> works with.
\<close>

lemma handleRetry_bound:
  assumes "queue_of s = Some q" and "\<not> exhausted item"
  shows "\<exists>s1 x. handleRetry item now s = (Inr (), s1) \<and> queue_of s1 = Some (os_put q x) \<and>
           id' x = id' item \<and> retryCount x = retryCount item + 1 \<and>
           retryCount x \<le> effectiveMaxRetries defaultRetryConfig item \<and>
           QueuedRequest.maxRetries x = QueuedRequest.maxRetries item"
proof -
  let ?y = "item\<lparr>retryCount := retryCount item + 1, timestamp := now, expiresAt := None\<rparr>"
  from handleRetry_known [OF assms(1), of item now] obtain s2 where
    "handleRetry item now s = (Inr (), s2)"
    "queue_of s2 = Some (if exhausted item then os_delete q (id' item) else os_put q ?y)"
    by blast
  then show ?thesis
    apply -
    apply (rule exI [of _ s2])
    apply (rule exI [of _ ?y])
    using assms(2) by (simp add: exhausted_def)
qed

text \<open>
  C2. Every queued request in the store has \<open>retryCount \<le> maxRetries\<close>, and a failed
  attempt that would raise the count above \<^verbatim>\<open>maxRetries\<close> removes the item and signals a
  failure. The code breaks this for an item enqueued with \<^verbatim>\<open>maxRetries: 0\<close>: in
  \<^verbatim>\<open>item.maxRetries || this.defaultRetryConfig.maxRetries\<close> the 0 is falsy, the default 3
  is used, and the first failed attempt stores the item with \<open>retryCount = 1\<close>.
\<close>

theorem retry_count_exceeds_zero_maxRetries:
  "queue_of (snd (addToQueue ''/api/donations'' ''POST'' (Some ''{}'') None donations
       (Some \<lparr>p_maxRetries = Some 0, p_baseDelay = None, p_maxDelay = None,
               p_backoffMultiplier = None\<rparr>)
       ''1-a'' 1 (new_OfflineQueueManager False fresh)))
   = Some [\<lparr>id' = ''1-a'', timestamp = 1, expiresAt = None, url = ''/api/donations'',
            method' = ''POST'', body = Some ''{}'', headers = [], retryCount = 0,
            maxRetries = Some 0, type' = donations\<rparr>]
   \<and> queue_of (snd (processQueueItem (\<lambda>call. Inl (NetworkFailure ''Failed to fetch''))
        \<lparr>id' = ''1-a'', timestamp = 1, expiresAt = None, url = ''/api/donations'',
            method' = ''POST'', body = Some ''{}'', headers = [], retryCount = 0,
            maxRetries = Some 0, type' = donations\<rparr> 2
        (snd (addToQueue ''/api/donations'' ''POST'' (Some ''{}'') None donations
       (Some \<lparr>p_maxRetries = Some 0, p_baseDelay = None, p_maxDelay = None,
               p_backoffMultiplier = None\<rparr>)
       ''1-a'' 1 (new_OfflineQueueManager False fresh)))))
   = Some [\<lparr>id' = ''1-a'', timestamp = 2, expiresAt = None, url = ''/api/donations'',
            method' = ''POST'', body = Some ''{}'', headers = [], retryCount = 1,
            maxRetries = Some 0, type' = donations\<rparr>]"
proof -
  let ?cfg = "Some \<lparr>p_maxRetries = Some 0, p_baseDelay = None, p_maxDelay = None,
               p_backoffMultiplier = None\<rparr>"
  let ?item = "\<lparr>id' = ''1-a'', timestamp = 1, expiresAt = None, url = ''/api/donations'',
            method' = ''POST'', body = Some ''{}'', headers = [], retryCount = 0,
            maxRetries = Some 0, type' = donations\<rparr>"
  let ?s1 = "snd (addToQueue ''/api/donations'' ''POST'' (Some ''{}'') None donations ?cfg
       ''1-a'' 1 (new_OfflineQueueManager False fresh))"
  from addToQueue_known [OF queue_of_new_fresh, of "''/api/donations''" "''POST''" "Some ''{}''"
      None donations ?cfg "''1-a''" 1 False]
  have q1: "queue_of ?s1 = Some [?item]"
    by (auto simp: os_put_Nil merge_config_def)
  from processQueueItem_known [OF q1, of "\<lambda>call. Inl (NetworkFailure ''Failed to fetch'')" ?item 2]
  have "queue_of (snd (processQueueItem (\<lambda>call. Inl (NetworkFailure ''Failed to fetch'')) ?item 2 ?s1))
        = Some [?item\<lparr>retryCount := 1, timestamp := 2\<rparr>]"
    by (auto simp: exhausted_def effectiveMaxRetries_def defaultRetryConfig_def os_put_single)
  then show ?thesis using q1 by simp
qed


subsection \<open>Headers objects\<close>








text \<open>
  An item whose headers spell the name in another way, as the lower-case names of the
  items that the service worker queues, gets the default entry as well, and \<^verbatim>\<open>fetch\<close> joins
  the two values.
\<close>

lemma requestInit_headers_merged:
  "header_get (fc_headers (requestInit
      \<lparr>id' = ''1-a'', timestamp = 1, expiresAt = None, url = ''/api/donations'',
        method' = ''POST'', body = Some ''a=1'',
        headers = [(''content-type'', ''text/plain'')], retryCount = 0,
        maxRetries = None, type' = donations\<rparr>)) ''content-type''
   = Some ''application/json, text/plain''"
  by (simp add: requestInit_def spread_def header_get_def lower_def lower_char_def)

subsection \<open>Replay\<close>




subsection \<open>Queued records and expiry\<close>

text \<open>
  C10. Every record placed in \<^verbatim>\<open>offlineQueue\<close> by \<^verbatim>\<open>addToQueue\<close> or by the retry path of
  \<^verbatim>\<open>handleRetry\<close> is stored without a TTL (\<^verbatim>\<open>expiresAt\<close> unset); a queue of such records
  is returned whole and left untouched by \<^verbatim>\<open>get\<close> and \<^verbatim>\<open>getAll\<close> at any time; and every
  operation of the manager keeps the queue free of TTLs and takes a record out of it only
  if the operation is \<^verbatim>\<open>clearQueue\<close>, or \<^verbatim>\<open>removeQueueItem\<close> for that record, or it sent the
  request of that record and either the network answered with a 2xx response and the
  success event of the record was dispatched, or the answer was no 2xx response, the
  retries of the record were exhausted and its failure event was dispatched.
\<close>

theorem queue_records_never_expire:
  assumes "queue_of s = Some q" and "no_ttl q"
  shows "(\<exists>s1 x. addToQueue u m b h t rc newId now s = (Inr newId, s1) \<and>
            queue_of s1 = Some (os_put q x) \<and> id' x = newId \<and> expiresAt x = None \<and>
            no_ttl (os_put q x))
       \<and> (\<not> exhausted item \<longrightarrow>
            (\<exists>s1 x. handleRetry item now s = (Inr (), s1) \<and> queue_of s1 = Some (os_put q x) \<and>
               id' x = id' item \<and> retryCount x = retryCount item + 1 \<and> expiresAt x = None \<and>
               no_ttl (os_put q x)))
       \<and> (\<forall>t. fst (getAll ''offlineQueue'' t (idb s)) = Inr q \<and>
               objectStores (snd (getAll ''offlineQueue'' t (idb s))) ''offlineQueue'' = Some q)
       \<and> (\<forall>t k. fst (get ''offlineQueue'' k t (idb s)) = Inr (os_get q k) \<and>
               objectStores (snd (get ''offlineQueue'' k t (idb s))) ''offlineQueue'' = Some q)
       \<and> (\<exists>q1 evs calls. queue_of (perform net now c s) = Some q1 \<and> no_ttl q1 \<and>
            dispatched (perform net now c s) = dispatched s @ evs \<and>
            fetched (perform net now c s) = fetched s @ calls \<and>
            (\<forall>k. has_key q k \<and> \<not> has_key q1 k \<longrightarrow>
                  c = ClearQueue \<or> c = RemoveQueueItem k \<or>
                  (\<exists>item\<in>set q. id' item = k \<and> left_by_attempt net item calls evs)))"
proof -
  let ?x = "\<lparr>id' = newId, timestamp = now, expiresAt = None, url = u,
             method' = m, body = b,
             headers = (case h of None \<Rightarrow> [] | Some h' \<Rightarrow> h'),
             retryCount = 0,
             maxRetries = Some (RetryConfig.maxRetries (merge_config defaultRetryConfig rc)),
             type' = t\<rparr>"
  from addToQueue_known [OF assms(1), of u m b h t rc newId now] obtain s1 where
    a: "addToQueue u m b h t rc newId now s = (Inr newId, s1)" "queue_of s1 = Some (os_put q ?x)"
    by blast
  have c1: "\<exists>s1 x. addToQueue u m b h t rc newId now s = (Inr newId, s1) \<and>
            queue_of s1 = Some (os_put q x) \<and> id' x = newId \<and> expiresAt x = None \<and>
            no_ttl (os_put q x)"
    apply (rule exI [of _ s1])
    apply (rule exI [of _ ?x])
    using a assms(2) by (simp add: no_ttl_put)
  let ?y = "item\<lparr>retryCount := retryCount item + 1, timestamp := now, expiresAt := None\<rparr>"
  have c2: "\<not> exhausted item \<longrightarrow>
            (\<exists>s1 x. handleRetry item now s = (Inr (), s1) \<and> queue_of s1 = Some (os_put q x) \<and>
               id' x = id' item \<and> retryCount x = retryCount item + 1 \<and> expiresAt x = None \<and>
               no_ttl (os_put q x))"
  proof
    assume ne: "\<not> exhausted item"
    from handleRetry_known [OF assms(1), of item now] obtain s2 where
      "handleRetry item now s = (Inr (), s2)"
      "queue_of s2 =
             Some (if exhausted item then os_delete q (id' item) else os_put q ?y)"
      by blast
    then show "\<exists>s1 x. handleRetry item now s = (Inr (), s1) \<and> queue_of s1 = Some (os_put q x) \<and>
               id' x = id' item \<and> retryCount x = retryCount item + 1 \<and> expiresAt x = None \<and>
               no_ttl (os_put q x)"
      apply -
      apply (rule exI [of _ s2])
      apply (rule exI [of _ ?y])
      using ne assms(2) by (simp add: no_ttl_put)
  qed
  note os = assms(1) [unfolded queue_of_def]
  note nt = assms(2) [unfolded no_ttl_def]
  have c3: "\<forall>t. fst (getAll ''offlineQueue'' t (idb s)) = Inr q \<and>
               objectStores (snd (getAll ''offlineQueue'' t (idb s))) ''offlineQueue'' = Some q"
    using getAll_no_ttl [OF os nt] os by simp
  have c4: "\<forall>t k. fst (get ''offlineQueue'' k t (idb s)) = Inr (os_get q k) \<and>
               objectStores (snd (get ''offlineQueue'' k t (idb s))) ''offlineQueue'' = Some q"
    using get_no_ttl [OF os nt] os by simp
  note c5 = perform_leaves [OF assms, of net now c]
  show ?thesis using c1 c2 c3 c4 c5 by blast
qed

text \<open>
  A queue holding one donation: a failed attempt stores it again without a TTL, and a
  drain that gets a 201 takes it out, having sent its request and dispatched its success
  event.
\<close>

theorem queue_records_never_expire_witness:
  "queue_of (new_OfflineQueueManager True
        \<lparr>db = True, version = 1, objectStores = [''offlineQueue'' \<mapsto> [\<lparr>id' = ''1-a'', timestamp = 1, expiresAt = None, url = ''/api/donations'',
        method' = ''POST'', body = Some ''{}'', headers = [], retryCount = 0,
        maxRetries = Some 3, type' = donations\<rparr>]]\<rparr>) = Some [\<lparr>id' = ''1-a'', timestamp = 1, expiresAt = None, url = ''/api/donations'',
        method' = ''POST'', body = Some ''{}'', headers = [], retryCount = 0,
        maxRetries = Some 3, type' = donations\<rparr>]
   \<and> no_ttl [\<lparr>id' = ''1-a'', timestamp = 1, expiresAt = None, url = ''/api/donations'',
        method' = ''POST'', body = Some ''{}'', headers = [], retryCount = 0,
        maxRetries = Some 3, type' = donations\<rparr>]
   \<and> \<not> exhausted \<lparr>id' = ''1-a'', timestamp = 1, expiresAt = None, url = ''/api/donations'',
        method' = ''POST'', body = Some ''{}'', headers = [], retryCount = 0,
        maxRetries = Some 3, type' = donations\<rparr>
   \<and> has_key [\<lparr>id' = ''1-a'', timestamp = 1, expiresAt = None, url = ''/api/donations'',
        method' = ''POST'', body = Some ''{}'', headers = [], retryCount = 0,
        maxRetries = Some 3, type' = donations\<rparr>] ''1-a''
   \<and> (\<exists>s1 x. handleRetry \<lparr>id' = ''1-a'', timestamp = 1, expiresAt = None, url = ''/api/donations'',
        method' = ''POST'', body = Some ''{}'', headers = [], retryCount = 0,
        maxRetries = Some 3, type' = donations\<rparr> 5 (new_OfflineQueueManager True
        \<lparr>db = True, version = 1, objectStores = [''offlineQueue'' \<mapsto> [\<lparr>id' = ''1-a'', timestamp = 1, expiresAt = None, url = ''/api/donations'',
        method' = ''POST'', body = Some ''{}'', headers = [], retryCount = 0,
        maxRetries = Some 3, type' = donations\<rparr>]]\<rparr>) = (Inr (), s1) \<and>
         queue_of s1 = Some [x] \<and> id' x = ''1-a'' \<and> retryCount x = 1 \<and> expiresAt x = None)
   \<and> queue_of (perform (\<lambda>call. Inr \<lparr>status = 201, statusText = ''Created''\<rparr>) 5 ProcessQueue (new_OfflineQueueManager True
        \<lparr>db = True, version = 1, objectStores = [''offlineQueue'' \<mapsto> [\<lparr>id' = ''1-a'', timestamp = 1, expiresAt = None, url = ''/api/donations'',
        method' = ''POST'', body = Some ''{}'', headers = [], retryCount = 0,
        maxRetries = Some 3, type' = donations\<rparr>]]\<rparr>)) = Some []
   \<and> left_by_attempt (\<lambda>call. Inr \<lparr>status = 201, statusText = ''Created''\<rparr>) \<lparr>id' = ''1-a'', timestamp = 1, expiresAt = None, url = ''/api/donations'',
        method' = ''POST'', body = Some ''{}'', headers = [], retryCount = 0,
        maxRetries = Some 3, type' = donations\<rparr>
       (fetched (perform (\<lambda>call. Inr \<lparr>status = 201, statusText = ''Created''\<rparr>) 5 ProcessQueue (new_OfflineQueueManager True
        \<lparr>db = True, version = 1, objectStores = [''offlineQueue'' \<mapsto> [\<lparr>id' = ''1-a'', timestamp = 1, expiresAt = None, url = ''/api/donations'',
        method' = ''POST'', body = Some ''{}'', headers = [], retryCount = 0,
        maxRetries = Some 3, type' = donations\<rparr>]]\<rparr>)))
       (dispatched (perform (\<lambda>call. Inr \<lparr>status = 201, statusText = ''Created''\<rparr>) 5 ProcessQueue (new_OfflineQueueManager True
        \<lparr>db = True, version = 1, objectStores = [''offlineQueue'' \<mapsto> [\<lparr>id' = ''1-a'', timestamp = 1, expiresAt = None, url = ''/api/donations'',
        method' = ''POST'', body = Some ''{}'', headers = [], retryCount = 0,
        maxRetries = Some 3, type' = donations\<rparr>]]\<rparr>)))
   \<and> replay_succeeded (\<lambda>call. Inr \<lparr>status = 201, statusText = ''Created''\<rparr>) \<lparr>id' = ''1-a'', timestamp = 1, expiresAt = None, url = ''/api/donations'',
        method' = ''POST'', body = Some ''{}'', headers = [], retryCount = 0,
        maxRetries = Some 3, type' = donations\<rparr>"
proof -
  let ?item = "\<lparr>id' = ''1-a'', timestamp = 1, expiresAt = None, url = ''/api/donations'',
        method' = ''POST'', body = Some ''{}'', headers = [], retryCount = 0,
        maxRetries = Some 3, type' = donations\<rparr>"
  let ?net = "(\<lambda>call. Inr \<lparr>status = 201, statusText = ''Created''\<rparr>) :: network"
  let ?s = "(new_OfflineQueueManager True
        \<lparr>db = True, version = 1, objectStores = [''offlineQueue'' \<mapsto> [\<lparr>id' = ''1-a'', timestamp = 1, expiresAt = None, url = ''/api/donations'',
        method' = ''POST'', body = Some ''{}'', headers = [], retryCount = 0,
        maxRetries = Some 3, type' = donations\<rparr>]]\<rparr>)"
  have h1: "queue_of ?s = Some [?item]"
    by (simp add: queue_of_def ensure_db_def new_OfflineQueueManager_def)
  have h2: "no_ttl [?item]" by (simp add: no_ttl_def)
  have h3: "\<not> exhausted ?item"
    by (simp add: exhausted_def effectiveMaxRetries_def defaultRetryConfig_def)
  have h4: "has_key [?item] ''1-a''" by (simp add: has_key_def os_get_def)
  have h5: "replay_succeeded ?net ?item" by (simp add: replay_succeeded_def ok_def)
  have e: "dispatched ?s = []" "fetched ?s = []" by (simp_all add: new_OfflineQueueManager_def)
  have p: "queue_of (perform ?net 5 ProcessQueue ?s) = Some []"
    by (simp add: processQueue_def processQueue_read_def processQueue_loop_def
        new_OfflineQueueManager_def getAll_def ensure_db_def transaction_def expired_def
        processQueueItem_def executeRequest_def ok_def removeFromQueue_def delete_def
        write_store_def os_delete_def notifySuccess_def queue_of_def Let_def)
  note t = queue_records_never_expire [OF h1 h2, where item = ?item and now = 5
      and net = ?net and c = ProcessQueue]
  from t [THEN conjunct2, THEN conjunct1] h3 obtain s1 x where
    r: "handleRetry ?item 5 ?s = (Inr (), s1)" "queue_of s1 = Some (os_put [?item] x)"
      "id' x = id' ?item" "retryCount x = retryCount ?item + 1" "expiresAt x = None"
    by blast
  have c2: "\<exists>s1 x. handleRetry ?item 5 ?s = (Inr (), s1) \<and>
         queue_of s1 = Some [x] \<and> id' x = ''1-a'' \<and> retryCount x = 1 \<and> expiresAt x = None"
    apply (rule exI [of _ s1])
    apply (rule exI [of _ x])
    using r by (simp add: os_put_single)
  from t [THEN conjunct2, THEN conjunct2, THEN conjunct2, THEN conjunct2]
  obtain q1 evs calls where
    a: "queue_of (perform ?net 5 ProcessQueue ?s) = Some q1"
      "dispatched (perform ?net 5 ProcessQueue ?s) = dispatched ?s @ evs"
      "fetched (perform ?net 5 ProcessQueue ?s) = fetched ?s @ calls"
    and l: "\<forall>k. has_key [?item] k \<and> \<not> has_key q1 k \<longrightarrow>
                  ProcessQueue = ClearQueue \<or> ProcessQueue = RemoveQueueItem k \<or>
                  (\<exists>item\<in>set [?item]. id' item = k \<and> left_by_attempt ?net item calls evs)"
    by blast
  have q1: "q1 = []" using a(1) p by simp
  have "\<not> has_key q1 ''1-a''" by (simp add: q1 has_key_def os_get_def)
  with l h4 have "left_by_attempt ?net ?item calls evs" by auto
  then have c3: "left_by_attempt ?net ?item (fetched (perform ?net 5 ProcessQueue ?s))
       (dispatched (perform ?net 5 ProcessQueue ?s))"
    using a(2,3) e by simp
  show ?thesis using h1 h2 h3 h4 c2 p c3 h5 by blast
qed

subsection \<open>Draining on reconnect\<close>

text \<open>
  \<^verbatim>\<open>processQueue\<close> does nothing while offline, and \<^verbatim>\<open>syncOfflineData\<close> does nothing while a
  sync is in progress (lemmas \<open>processQueue_offline\<close> and \<open>syncOfflineData_guard\<close> above).

  C5. On a transition to online the drain is invoked exactly once, guarded by
  \<^verbatim>\<open>syncInProgress\<close>. The code starts two drains for one \<^verbatim>\<open>online\<close> event: the manager's
  own listener calls \<^verbatim>\<open>processQueue\<close> without looking at \<^verbatim>\<open>syncInProgress\<close>, and
  \<^verbatim>\<open>App\<close>'s listener starts another one through \<^verbatim>\<open>setOnlineStatus\<close> and
  \<^verbatim>\<open>syncOfflineData\<close>. Both read the queue before either has removed an item, so each
  queued write is sent twice (lemma \<open>window_online_sends_twice\<close> above).
\<close>

theorem online_event_drains_twice:
  "drains (manager (window_online net now (initial_store False (new_OfflineQueueManager False d)))) = 2"
  using window_online_drains [of "initial_store False (new_OfflineQueueManager False d)" net now]
  by (simp add: initial_store_def new_OfflineQueueManager_def)

section \<open>The service worker\<close>

lemma startsWith_append: "startsWith p (a @ b) \<Longrightarrow> startsWith p a"
proof -
  assume "startsWith p (a @ b)"
  then have e: "take (length (a @ b)) p = a @ b" by (simp add: startsWith_def)
  have "take (length a) p = take (length a) (take (length (a @ b)) p)" by (simp add: min_def)
  also have "\<dots> = a" by (simp only: e) simp
  finally show ?thesis by (simp add: startsWith_def)
qed

lemma startsWith_api:
  assumes "startsWith p ''/api/auth/''"
  shows "startsWith p ''/api/''"
  using startsWith_append [of p "''/api/''" "''auth/''"] assms by simp

lemma addToOfflineQueue_known:
  assumes "sw_queue (openIndexedDB s) = Some q" and "\<not> has_key q newId"
  shows "addToOfflineQueue t u m b h newId now s =
           (Inr (Some newId),
            (openIndexedDB s)\<lparr>sw_queue := Some (os_put q
               \<lparr>id' = newId, timestamp = now, expiresAt = None, url = u, method' = m,
                body = b, headers = h, retryCount = 0, maxRetries = None, type' = t\<rparr>)\<rparr>)"
  using assms by (simp add: addToOfflineQueue_def has_key_def)

lemma enqueue_write_known:
  assumes "sw_queue (openIndexedDB s) = Some q" and "\<not> has_key q newId"
  shows "enqueue_write request b newId now s =
           (Inr queuedResponse,
            (openIndexedDB s)\<lparr>sw_queue := Some (os_put q
               \<lparr>id' = newId, timestamp = now, expiresAt = None, url = req_url request,
                method' = req_method request, body = b,
                headers = req_headers request, retryCount = 0, maxRetries = None,
                type' = getRequestType (req_pathname request)\<rparr>)\<rparr>)"
  by (simp add: enqueue_write_def addToOfflineQueue_known [OF assms])

lemma write_failed:
  assumes "\<not> isAuthEndpoint request" and "isWriteOperation request"
    and "\<forall>r. net request = Inr r \<longrightarrow> \<not> ok r"
  shows "handleApiRequest net request newId now s = write_fallback request newId now s"
  using assms by (simp add: handleApiRequest_def split: sum.splits)

subsection \<open>Authentication endpoints\<close>

text \<open>
  C1, as stated, fails where the network fails: the caller of an authentication endpoint
  does not see the failure itself but a 503 response that the fetch listener makes up.
\<close>

theorem auth_failure_replaced_counterexample:
  "fetch_listener (\<lambda>request. Inl (NetworkFailure ''Failed to fetch''))
     \<lparr>req_url = ''https://masjeed.app/api/auth/me'', req_pathname = ''/api/auth/me'',
      req_method = ''GET'', req_body = None, req_headers = []\<rparr>
     ''1-a'' 1
     \<lparr>caches = Map.empty, sw_version = 0, sw_queue = None, sw_data = Map.empty\<rparr>
   = Some (Inr authUnavailable,
           \<lparr>caches = Map.empty, sw_version = 0, sw_queue = None, sw_data = Map.empty\<rparr>)"
  by (simp add: fetch_listener_def handleApiRequest_def isAuthEndpoint_def startsWith_def)

text \<open>
  C1, amended: for every request under \<^verbatim>\<open>/api/auth/\<close> the interceptor asks the network and
  touches neither the caches nor the queue. A response of the network is passed on as it
  is; a failure is rethrown by \<^verbatim>\<open>handleApiRequest\<close> unchanged and turned by the fetch
  listener into a 503 response with the body
  \<^verbatim>\<open>{success: false, error: 'Authentication service unavailable', offline: false}\<close>.
\<close>

theorem auth_request_network_only:
  assumes "startsWith (req_pathname request) ''/api/auth/''"
  shows "handleApiRequest net request newId now s = (net request, s)
       \<and> fetch_listener net request newId now s =
           Some (case net request of
                   Inr networkResponse \<Rightarrow> Inr networkResponse
                 | Inl error \<Rightarrow> Inr authUnavailable, s)
       \<and> status authUnavailable = 503
       \<and> resp_body authUnavailable =
           Json (JObj [(''success'', JBool False),
                       (''error'', JStr ''Authentication service unavailable''),
                       (''offline'', JBool False)])"
proof -
  have h: "handleApiRequest net request newId now s = (net request, s)"
    using assms by (simp add: handleApiRequest_def isAuthEndpoint_def split: sum.splits)
  show ?thesis
    using assms startsWith_api [OF assms]
    by (simp add: h fetch_listener_def authUnavailable_def json_response_def split: sum.splits)
qed

theorem auth_request_network_only_witness:
  "startsWith ''/api/auth/me'' ''/api/auth/'' \<and>
   fetch_listener (\<lambda>request. Inr \<lparr>status = 401, statusText = ''Unauthorized'',
                                   resp_headers = Map.empty, resp_body = Text []\<rparr>)
     \<lparr>req_url = ''https://masjeed.app/api/auth/me'', req_pathname = ''/api/auth/me'',
      req_method = ''GET'', req_body = None, req_headers = []\<rparr>
     ''1-a'' 1
     \<lparr>caches = Map.empty, sw_version = 0, sw_queue = None, sw_data = Map.empty\<rparr>
   = Some (Inr \<lparr>status = 401, statusText = ''Unauthorized'',
                 resp_headers = Map.empty, resp_body = Text []\<rparr>,
           \<lparr>caches = Map.empty, sw_version = 0, sw_queue = None, sw_data = Map.empty\<rparr>)"
proof -
  let ?req = "\<lparr>req_url = ''https://masjeed.app/api/auth/me'', req_pathname = ''/api/auth/me'',
      req_method = ''GET'', req_body = None, req_headers = []\<rparr>"
  have h: "startsWith (req_pathname ?req) ''/api/auth/''" by (simp add: startsWith_def)
  from auth_request_network_only [OF h] h show ?thesis by simp
qed

subsection \<open>Writes\<close>

text \<open>
  A write that the network answers with a 2xx response returns that response and stores
  nothing.
\<close>

lemma write_succeeded:
  assumes "\<not> isAuthEndpoint request" and "isWriteOperation request"
    and "net request = Inr r" and "ok r"
  shows "handleApiRequest net request newId now s = (Inr r, s)"
  using assms by (simp add: handleApiRequest_def)

text \<open>
  A failed write whose body is never read (\<^verbatim>\<open>DELETE\<close>) or that has no body is put into the
  queue, with \<^verbatim>\<open>null\<close> resp. the empty text for its body, and answered with the 202
  response, when the object store is there and the id is new.
\<close>

lemma write_without_body_queued:
  assumes "\<not> isAuthEndpoint request" and "isWriteOperation request"
    and "\<forall>r. net request = Inr r \<longrightarrow> \<not> ok r"
    and "req_method request = ''DELETE'' \<or> req_body request = None"
    and "sw_queue (openIndexedDB s) = Some q" and "\<not> has_key q newId"
  shows "handleApiRequest net request newId now s =
           (Inr queuedResponse,
            (openIndexedDB s)\<lparr>sw_queue := Some (os_put q
               \<lparr>id' = newId, timestamp = now, expiresAt = None, url = req_url request,
                method' = req_method request,
                body = (if req_method request = ''DELETE'' then None else Some []),
                headers = req_headers request, retryCount = 0, maxRetries = None,
                type' = getRequestType (req_pathname request)\<rparr>)\<rparr>)"
proof -
  have "handleApiRequest net request newId now s = write_fallback request newId now s"
    using write_failed [where request = request and net = net] assms(1-3) by blast
  then show ?thesis
    using assms(4) by (auto simp: write_fallback_def enqueue_write_known [OF assms(5,6)])
qed

lemma queuedResponse_queued:
  "status queuedResponse = 202"
  "resp_body queuedResponse =
     Json (JObj [(''success'', JBool False), (''error'', JStr ''Request queued for when back online''),
                 (''offline'', JBool True), (''queued'', JBool True)])"
  by (simp_all add: queuedResponse_def json_response_def)

text \<open>
  A failed \<^verbatim>\<open>POST\<close>, \<^verbatim>\<open>PUT\<close> or \<^verbatim>\<open>PATCH\<close> that has a body is not queued: \<^verbatim>\<open>fetch(request)\<close>
  has used the body, \<^verbatim>\<open>request.clone()\<close> throws, and \<^verbatim>\<open>handleApiRequest\<close> rejects with the
  state as it was.
\<close>

lemma write_with_body_rejects:
  assumes "\<not> isAuthEndpoint request" and "isWriteOperation request"
    and "\<forall>r. net request = Inr r \<longrightarrow> \<not> ok r"
    and "req_method request \<noteq> ''DELETE''" and "req_body request = Some b"
  shows "handleApiRequest net request newId now s =
           (Inl (TypeError ''Request body is already used''), s)"
proof -
  have "handleApiRequest net request newId now s = write_fallback request newId now s"
    using write_failed [where request = request and net = net] assms(1-3) by blast
  then show ?thesis using assms(4,5) by (simp add: write_fallback_def)
qed

text \<open>
  C3. A write outside \<^verbatim>\<open>/api/auth/\<close> whose network attempt fails is put into the offline
  queue with its method, URL, body and headers and answered with a 202 response carrying
  \<^verbatim>\<open>queued: true\<close>. The code does not do this for a \<^verbatim>\<open>POST\<close> with a body: with the queue's
  object store in place and empty, the failed request is answered with a \<^verbatim>\<open>TypeError\<close>, by
  \<^verbatim>\<open>handleApiRequest\<close> and by the \<^verbatim>\<open>fetch\<close> listener, and the queue stays empty.
\<close>

theorem failed_write_with_body_rejects:
  "handleApiRequest (\<lambda>request. Inl (NetworkFailure ''Failed to fetch''))
     \<lparr>req_url = ''https://masjeed.app/api/donations'', req_pathname = ''/api/donations'',
      req_method = ''POST'', req_body = Some ''amount=5'',
      req_headers = [(''content-type'', ''application/x-www-form-urlencoded'')]\<rparr>
     ''1-a'' 1
     \<lparr>caches = Map.empty, sw_version = 1, sw_queue = Some [],
      sw_data = [''prayerTimes'' \<mapsto> [], ''events'' \<mapsto> [], ''announcements'' \<mapsto> []]\<rparr>
   = (Inl (TypeError ''Request body is already used''),
      \<lparr>caches = Map.empty, sw_version = 1, sw_queue = Some [],
       sw_data = [''prayerTimes'' \<mapsto> [], ''events'' \<mapsto> [], ''announcements'' \<mapsto> []]\<rparr>)
   \<and> fetch_listener (\<lambda>request. Inl (NetworkFailure ''Failed to fetch''))
     \<lparr>req_url = ''https://masjeed.app/api/donations'', req_pathname = ''/api/donations'',
      req_method = ''POST'', req_body = Some ''amount=5'',
      req_headers = [(''content-type'', ''application/x-www-form-urlencoded'')]\<rparr>
     ''1-a'' 1
     \<lparr>caches = Map.empty, sw_version = 1, sw_queue = Some [],
      sw_data = [''prayerTimes'' \<mapsto> [], ''events'' \<mapsto> [], ''announcements'' \<mapsto> []]\<rparr>
   = Some (Inl (TypeError ''Request body is already used''),
      \<lparr>caches = Map.empty, sw_version = 1, sw_queue = Some [],
       sw_data = [''prayerTimes'' \<mapsto> [], ''events'' \<mapsto> [], ''announcements'' \<mapsto> []]\<rparr>)"
  by (simp add: fetch_listener_def handleApiRequest_def isAuthEndpoint_def isWriteOperation_def
      startsWith_def write_fallback_def)

end
